theory Spec2Isabelle
  imports Complex_Main "HOL-Library.Word"
begin

section \<open>Face detection and blurring utilities (utils/face_blur.py)\<close>

subsection \<open>Data model\<close>

text \<open>
  A frame is a numpy array of shape (height, width, 3) with 8-bit channels, stored in
  OpenCV's BGR order. It is modelled as the list of its rows, each row the list of its
  pixels. \<open>image.shape[0]\<close> is the number of rows and \<open>image.shape[1]\<close> the length
  of a row; a numpy array is rectangular, which is the predicate \<open>is_frame\<close>.
\<close>

type_synonym pixel = "8 word \<times> 8 word \<times> 8 word"

type_synonym image = "pixel list list"

definition shape0 :: "image \<Rightarrow> int" where
  "shape0 img = int (length img)"

definition shape1 :: "image \<Rightarrow> int" where
  "shape1 img = (case img of [] \<Rightarrow> 0 | row # _ \<Rightarrow> int (length row))"

definition is_frame :: "image \<Rightarrow> bool" where
  "is_frame img = list_all (\<lambda>row. int (length row) = shape1 img) img"

text \<open>
  Every fault of the code and of its collaborators (cv2.error, OSError, ValueError,
  ZeroDivisionError, ...) is an instance of Python's \<open>Exception\<close>; the model keeps the
  text that \<open>str(e)\<close> gives.
\<close>

datatype exn = Exception string

fun str :: "exn \<Rightarrow> string" where
  "str (Exception m) = m"

text \<open>
  MediaPipe's \<open>detection.location_data.relative_bounding_box\<close>: four Python floats,
  fractions of the frame's dimensions. They are modelled as reals.
\<close>

record relative_bounding_box =
  xmin :: real
  ymin :: real
  width :: real
  height :: real

record detection =
  score :: real
  location_data :: relative_bounding_box

subsection \<open>The collaborators\<close>

text \<open>
  What \<open>cv2.VideoCapture(path)\<close> gives: whether the stream opened, the four properties
  read through \<open>cap.get\<close>, and the outcomes of the successive calls of \<open>cap.read()\<close>
  up to the first one that reports \<open>ret = False\<close>: a decoded frame, or a fault.
\<close>

record video_capture =
  isOpened :: bool
  CAP_PROP_FPS :: real
  CAP_PROP_FRAME_WIDTH :: real
  CAP_PROP_FRAME_HEIGHT :: real
  CAP_PROP_FRAME_COUNT :: real
  frames :: "(exn + image) list"

text \<open>
  The library and operating-system calls of the module. Each call that can raise returns
  a sum, \<open>Inl\<close> the exception.
  \<^item> \<open>os_path_exists\<close>: \<open>os.path.exists\<close>;
  \<^item> \<open>os_remove\<close>: \<open>os.remove\<close>, \<open>Some e\<close> when it raises;
  \<^item> \<open>cv2_imread\<close>: \<open>cv2.imread\<close>, \<open>None\<close> when the file does not decode;
  \<^item> \<open>cv2_imwrite\<close>: \<open>cv2.imwrite\<close>, the flag it returns;
  \<^item> \<open>face_detection_process\<close>: \<open>FaceDetection(model_selection=0,
    min_detection_confidence=t).process(rgb).detections\<close>, which is \<open>None\<close> or a list;
  \<^item> \<open>cv2_GaussianBlur\<close>: \<open>cv2.GaussianBlur(src, ksize, 0)\<close>;
  \<^item> \<open>cv2_VideoCapture\<close>: the constructor of the decode stream;
  \<^item> \<open>cv2_VideoWriter\<close>: the constructor of the encode stream with the fourcc \<open>mp4v\<close>,
    giving what \<open>out.isOpened()\<close> answers;
  \<^item> \<open>out_write\<close>: \<open>out.write(frame)\<close> for the frame of the given index (from 0),
    \<open>Some e\<close> when it raises.
\<close>

record env =
  os_path_exists :: "string \<Rightarrow> bool"
  os_remove :: "string \<Rightarrow> exn option"
  cv2_imread :: "string \<Rightarrow> exn + image option"
  cv2_imwrite :: "string \<Rightarrow> image \<Rightarrow> exn + bool"
  face_detection_process :: "real \<Rightarrow> image \<Rightarrow> exn + detection list option"
  cv2_GaussianBlur :: "image \<Rightarrow> int \<times> int \<Rightarrow> image"
  cv2_VideoCapture :: "string \<Rightarrow> exn + video_capture"
  cv2_VideoWriter :: "string \<Rightarrow> int \<Rightarrow> int \<times> int \<Rightarrow> exn + bool"
  out_write :: "nat \<Rightarrow> image \<Rightarrow> exn option"

subsection \<open>Python and numpy primitives\<close>

text \<open>\<open>int(r)\<close> of a float truncates towards zero.\<close>

definition py_int :: "real \<Rightarrow> int" where
  "py_int r = (if 0 \<le> r then \<lfloor>r\<rfloor> else \<lceil>r\<rceil>)"

text \<open>
  \<open>slice(start, stop).indices(n)\<close>: a negative bound counts from the end, every bound
  is clipped to the length, and a stop before the start selects nothing.
\<close>

definition slice_indices :: "int \<Rightarrow> int \<Rightarrow> int \<Rightarrow> nat \<times> nat" where
  "slice_indices start stop n =
     (let s = (if start < 0 then max 0 (start + n) else min start n);
          e = (if stop < 0 then max 0 (stop + n) else min stop n)
      in (nat s, nat (max s e)))"

definition getslice :: "int \<Rightarrow> int \<Rightarrow> 'a list \<Rightarrow> 'a list" where
  "getslice start stop xs =
     (let (s, e) = slice_indices start stop (int (length xs))
      in take (e - s) (drop s xs))"

definition setslice :: "int \<Rightarrow> int \<Rightarrow> 'a list \<Rightarrow> 'a list \<Rightarrow> 'a list" where
  "setslice start stop xs ys =
     (let (s, e) = slice_indices start stop (int (length xs))
      in take s xs @ ys @ drop e xs)"

text \<open>\<open>image[y0:y1, x0:x1]\<close>.\<close>

definition getitem2 :: "image \<Rightarrow> int \<times> int \<Rightarrow> int \<times> int \<Rightarrow> image" where
  "getitem2 img ys xs =
     (case (ys, xs) of ((y0, y1), (x0, x1)) \<Rightarrow> map (getslice x0 x1) (getslice y0 y1 img))"

text \<open>
  \<open>image[y0:y1, x0:x1] = src\<close>. numpy raises ValueError when the shape of \<open>src\<close>
  is not the shape of the selected block (its message also names the two shapes); the
  result of \<open>cv2.GaussianBlur\<close>, the only array the module assigns, has the size of
  its source, so that broadcasting of a smaller array is left out.
\<close>

definition setitem2 :: "image \<Rightarrow> int \<times> int \<Rightarrow> int \<times> int \<Rightarrow> image \<Rightarrow> exn + image" where
  "setitem2 img ys xs src =
     (case (ys, xs) of ((y0, y1), (x0, x1)) \<Rightarrow>
        if map length src \<noteq> map length (getitem2 img (y0, y1) (x0, x1))
        then Inl (Exception ''could not broadcast input array'')
        else
          (let (s, e) = slice_indices y0 y1 (int (length img))
           in Inr (take s img
                   @ map2 (setslice x0 x1) (take (e - s) (drop s img)) src
                   @ drop e img)))"

text \<open>\<open>cv2.cvtColor(image, cv2.COLOR_BGR2RGB)\<close> swaps the first and third channel.\<close>

definition cvtColor_BGR2RGB :: "image \<Rightarrow> image" where
  "cvtColor_BGR2RGB img = map (map (\<lambda>(b, g, r). (r, g, b))) img"

text \<open>\<open>str(n)\<close> of an integer: its decimal digits, with a minus sign when negative.\<close>

definition digit :: "nat \<Rightarrow> char" where
  "digit n = ''0123456789'' ! n"

fun str_nat :: "nat \<Rightarrow> string" where
  "str_nat n = (if n < 10 then [digit n] else str_nat (n div 10) @ [digit (n mod 10)])"

declare str_nat.simps [simp del]

definition str_int :: "int \<Rightarrow> string" where
  "str_int i = (if i < 0 then CHR ''-'' # str_nat (nat (- i)) else str_nat (nat i))"

subsection \<open>blur_face_region\<close>

text \<open>Lines 31 to 34: the operator's own clamping of the box to the image.\<close>

definition clamp_bbox :: "image \<Rightarrow> int \<times> int \<times> int \<times> int \<Rightarrow> int \<times> int \<times> int \<times> int" where
  "clamp_bbox img bbox =
     (case bbox of (x, y, w, h) \<Rightarrow>
        (let x = max 0 x;
             y = max 0 y;
             w = min w (shape1 img - x);
             h = min h (shape0 img - y)
         in (x, y, w, h)))"

definition blur_face_region :: "env \<Rightarrow> image \<Rightarrow> int \<times> int \<times> int \<times> int \<Rightarrow> int \<Rightarrow> exn + image" where
  "blur_face_region env img bbox blur_factor =
     (case clamp_bbox img bbox of (x, y, w, h) \<Rightarrow>
        if w \<le> 0 \<or> h \<le> 0 then Inr img
        else
          (let face_region = getitem2 img (y, y + h) (x, x + w);
               blurred_face =
                 cv2_GaussianBlur env face_region (blur_factor * 2 + 1, blur_factor * 2 + 1)
           in setitem2 img (y, y + h) (x, x + w) blurred_face))"

subsection \<open>detect_and_blur_faces\<close>

text \<open>
  Lines 81 to 92, for an image of width \<open>w\<close> and height \<open>h\<close>: the relative box in
  pixels, padded on every side and clamped. The source fixes \<open>padding = 20\<close>.
\<close>

definition clamp_and_pad :: "relative_bounding_box \<Rightarrow> int \<Rightarrow> int \<Rightarrow> int \<Rightarrow> int \<times> int \<times> int \<times> int" where
  "clamp_and_pad bbox w h padding =
     (let x = py_int (xmin bbox * of_int w);
          y = py_int (ymin bbox * of_int h);
          width = py_int (width bbox * of_int w);
          height = py_int (height bbox * of_int h);
          x = max 0 (x - padding);
          y = max 0 (y - padding);
          width = min (width + 2 * padding) (w - x);
          height = min (height + 2 * padding) (h - y)
      in (x, y, width, height))"

text \<open>The loop over \<open>results.detections\<close>, lines 76 to 96.\<close>

fun blur_detections :: "env \<Rightarrow> detection list \<Rightarrow> image \<times> int \<Rightarrow> exn + image \<times> int" where
  "blur_detections env [] (img, faces_detected) = Inr (img, faces_detected)"
| "blur_detections env (detection # rest) (img, faces_detected) =
     (let bbox = location_data detection;
          h = shape0 img;
          w = shape1 img
      in case blur_face_region env img (clamp_and_pad bbox w h 20) 100 of
           Inl e \<Rightarrow> Inl e
         | Inr img' \<Rightarrow> blur_detections env rest (img', faces_detected + 1))"

definition detect_and_blur_faces :: "env \<Rightarrow> image \<Rightarrow> real \<Rightarrow> exn + image \<times> int" where
  "detect_and_blur_faces env img confidence_threshold =
     (let rgb_image = cvtColor_BGR2RGB img
      in case face_detection_process env confidence_threshold rgb_image of
           Inl e \<Rightarrow> Inl e
         | Inr None \<Rightarrow> Inr (img, 0)
         | Inr (Some detections) \<Rightarrow>
             if detections = [] then Inr (img, 0)
             else blur_detections env detections (img, 0))"

text \<open>The default of the parameter \<open>confidence_threshold\<close>.\<close>

definition confidence_threshold_default :: real where
  "confidence_threshold_default = 37 / 100"

subsection \<open>What a blur pass is\<close>

text \<open>
  A description of one blur pass in the words of the design, pixel by pixel and without
  slices, to compare the code with. \<open>spec_blur_region\<close>: the block of \<open>h\<close> rows and
  \<open>w\<close> columns at \<open>(x, y)\<close> is taken out, smoothed with the kernel size given, and
  written back into the same rectangle; every other pixel stays. \<open>spec_blur_pass\<close>: the
  pass of one detection, which computes its region (padding 20), skips a region without
  extent and blurs the others with the kernel of 201 by 201.
\<close>

definition spec_blur_region :: "env \<Rightarrow> image \<Rightarrow> nat \<times> nat \<times> nat \<times> nat \<Rightarrow> int \<times> int \<Rightarrow> image" where
  "spec_blur_region env img region ksize =
     (case region of (x, y, w, h) \<Rightarrow>
        (let block = map (\<lambda>row. take w (drop x row)) (take h (drop y img));
             blurred = cv2_GaussianBlur env block ksize
         in map (\<lambda>i. map (\<lambda>j. if y \<le> i \<and> i < y + h \<and> x \<le> j \<and> j < x + w
                                 then blurred ! (i - y) ! (j - x)
                                 else img ! i ! j)
                            [0..<length (img ! i)])
                [0..<length img]))"

definition spec_blur_pass :: "env \<Rightarrow> detection \<Rightarrow> image \<Rightarrow> image" where
  "spec_blur_pass env d img =
     (case clamp_and_pad (location_data d) (shape1 img) (shape0 img) 20 of
        (x, y, w, h) \<Rightarrow>
          if w \<le> 0 \<or> h \<le> 0 then img
          else spec_blur_region env img (nat x, nat y, nat w, nat h) (201, 201))"

subsection \<open>The effects of a pipeline\<close>

text \<open>
  What a pipeline does to the outside is kept in a state: the two stream handles of
  the video pipeline and the trace of the calls that decode, write, print or delete.
  A handle is \<open>None\<close> while the local name (\<open>cap\<close>, \<open>out\<close>) is unbound, which is
  what \<open>'cap' in locals()\<close> tests. \<open>release()\<close> closes the stream and does not raise.
  \<open>print\<close> appends to the trace; the two messages are kept by their arguments.
\<close>

datatype handle = Opened | NotOpened | Released

datatype event =
    Imread string
  | Imwrite string image
  | VideoCapture string
  | VideoWriter string
  | CapRead
  | OutWrite image
  | CapRelease
  | OutRelease
  | PrintProcessing int int
  | PrintProgress int int
  | Remove string

record state =
  cap :: "handle option"
  out :: "handle option"
  trace :: "event list"

definition state0 :: state where
  "state0 = \<lparr>cap = None, out = None, trace = []\<rparr>"

definition emit :: "event \<Rightarrow> state \<Rightarrow> state" where
  "emit ev s = s\<lparr>trace := trace s @ [ev]\<rparr>"

definition cap_release :: "state \<Rightarrow> state" where
  "cap_release s = emit CapRelease (s\<lparr>cap := Some Released\<rparr>)"

definition out_release :: "state \<Rightarrow> state" where
  "out_release s = emit OutRelease (s\<lparr>out := Some Released\<rparr>)"

text \<open>The frames handed to \<open>out.write\<close>, in the order of the trace.\<close>

fun written :: "event list \<Rightarrow> image list" where
  "written [] = []"
| "written (OutWrite f # es) = f # written es"
| "written (ev # es) = written es"

subsection \<open>blur_faces_in_image\<close>

text \<open>The body of the \<open>try\<close>, lines 112 to 132; \<open>Inl e\<close> when it raises \<open>e\<close>.\<close>

definition blur_faces_in_image_try ::
  "env \<Rightarrow> string \<Rightarrow> string \<Rightarrow> state \<Rightarrow> (exn + bool \<times> string) \<times> state" where
  "blur_faces_in_image_try env input_path output_path s =
     (if \<not> os_path_exists env input_path then (Inr (False, ''Input file not found''), s)
      else
        (let s1 = emit (Imread input_path) s
         in case cv2_imread env input_path of
              Inl e \<Rightarrow> (Inl e, s1)
            | Inr None \<Rightarrow>
                (Inr (False, ''Could not read image file. Please check the file format.''), s1)
            | Inr (Some img) \<Rightarrow>
                (case detect_and_blur_faces env img confidence_threshold_default of
                   Inl e \<Rightarrow> (Inl e, s1)
                 | Inr (processed_image, faces_count) \<Rightarrow>
                     (let s2 = emit (Imwrite output_path processed_image) s1
                      in case cv2_imwrite env output_path processed_image of
                           Inl e \<Rightarrow> (Inl e, s2)
                         | Inr success \<Rightarrow>
                             if \<not> success then (Inr (False, ''Failed to save processed image''), s2)
                             else
                               (Inr (True, ''Successfully processed image. '' @ str_int faces_count
                                       @ '' face(s) detected and blurred.''), s2)))))"

text \<open>
  The function: the \<open>try\<close> with its handler \<open>except Exception as e\<close>. The result is
  \<open>Inr\<close> the pair returned, or \<open>Inl\<close> an exception that leaves the function.
\<close>

definition blur_faces_in_image :: "env \<Rightarrow> string \<Rightarrow> string \<Rightarrow> (exn + bool \<times> string) \<times> state" where
  "blur_faces_in_image env input_path output_path =
     (case blur_faces_in_image_try env input_path output_path state0 of
        (Inr r, s) \<Rightarrow> (Inr r, s)
      | (Inl e, s) \<Rightarrow> (Inr (False, ''Error processing image: '' @ str e), s))"

subsection \<open>blur_faces_in_video\<close>

text \<open>
  The loop \<open>while True\<close>, lines 179 to 197, over the outcomes of \<open>cap.read()\<close>; the empty
  list is the read that reports \<open>ret = False\<close>. The loop carries \<open>frame_count\<close> and
  \<open>total_faces_detected\<close>. \<open>frame_count / total_frames\<close> raises ZeroDivisionError when
  \<open>total_frames\<close> is 0.
\<close>

fun process_frames ::
  "env \<Rightarrow> int \<Rightarrow> (exn + image) list \<Rightarrow> int \<times> int \<Rightarrow> state \<Rightarrow> (exn + int \<times> int) \<times> state" where
  "process_frames env total_frames [] (frame_count, total_faces_detected) s =
     (Inr (frame_count, total_faces_detected), emit CapRead s)"
| "process_frames env total_frames (r # rs) (frame_count, total_faces_detected) s =
     (let s1 = emit CapRead s
      in case r of
           Inl e \<Rightarrow> (Inl e, s1)
         | Inr frame \<Rightarrow>
             (case detect_and_blur_faces env frame confidence_threshold_default of
                Inl e \<Rightarrow> (Inl e, s1)
              | Inr (processed_frame, faces_in_frame) \<Rightarrow>
                  (let total_faces_detected = total_faces_detected + faces_in_frame;
                       s2 = emit (OutWrite processed_frame) s1
                   in case out_write env (nat frame_count) processed_frame of
                        Some e \<Rightarrow> (Inl e, s2)
                      | None \<Rightarrow>
                          (let frame_count = frame_count + 1
                           in if frame_count mod 30 = 0 then
                                (if total_frames = 0 then (Inl (Exception ''division by zero''), s2)
                                 else process_frames env total_frames rs
                                        (frame_count, total_faces_detected)
                                        (emit (PrintProgress frame_count total_frames) s2))
                              else process_frames env total_frames rs
                                     (frame_count, total_faces_detected) s2))))"

text \<open>
  The body of the \<open>try\<close>, lines 149 to 210. The deletion of the input is inside a
  \<open>try\<close> of its own whose handler is \<open>pass\<close>: both outcomes continue alike.
\<close>

definition blur_faces_in_video_try ::
  "env \<Rightarrow> string \<Rightarrow> string \<Rightarrow> state \<Rightarrow> (exn + bool \<times> string) \<times> state" where
  "blur_faces_in_video_try env input_path output_path s =
     (if \<not> os_path_exists env input_path then (Inr (False, ''Input file not found''), s)
      else
        (let s1 = emit (VideoCapture input_path) s
         in case cv2_VideoCapture env input_path of
              Inl e \<Rightarrow> (Inl e, s1)
            | Inr c \<Rightarrow>
                (let s2 = s1\<lparr>cap := Some (if isOpened c then Opened else NotOpened)\<rparr>
                 in if \<not> isOpened c then
                      (Inr (False, ''Could not open video file. Please check the file format.''), s2)
                    else
                      (let fps = py_int (CAP_PROP_FPS c);
                           width = py_int (CAP_PROP_FRAME_WIDTH c);
                           height = py_int (CAP_PROP_FRAME_HEIGHT c);
                           total_frames = py_int (CAP_PROP_FRAME_COUNT c);
                           s3 = emit (VideoWriter output_path) s2
                       in case cv2_VideoWriter env output_path fps (width, height) of
                            Inl e \<Rightarrow> (Inl e, s3)
                          | Inr opened \<Rightarrow>
                              (let s4 = s3\<lparr>out := Some (if opened then Opened else NotOpened)\<rparr>
                               in if \<not> opened then
                                    (Inr (False, ''Could not create output video file''), cap_release s4)
                                  else
                                    (case process_frames env total_frames (frames c) (0, 0)
                                            (emit (PrintProcessing total_frames fps) s4) of
                                       (Inl e, s5) \<Rightarrow> (Inl e, s5)
                                     | (Inr (frame_count, total_faces_detected), s5) \<Rightarrow>
                                         (let s6 = out_release (cap_release s5);
                                              s7 = (case os_remove env input_path of
                                                      Some e \<Rightarrow> emit (Remove input_path) s6
                                                    | None \<Rightarrow> emit (Remove input_path) s6)
                                          in (Inr (True, ''Successfully processed video. ''
                                                     @ str_int total_faces_detected
                                                     @ '' face instances detected and blurred across ''
                                                     @ str_int frame_count @ '' frames.''), s7))))))))"

text \<open>
  The function: the \<open>try\<close> with its handler, lines 212 to 222, which releases the
  handles that are bound and returns the failure.
\<close>

definition blur_faces_in_video :: "env \<Rightarrow> string \<Rightarrow> string \<Rightarrow> (exn + bool \<times> string) \<times> state" where
  "blur_faces_in_video env input_path output_path =
     (case blur_faces_in_video_try env input_path output_path state0 of
        (Inr r, s) \<Rightarrow> (Inr r, s)
      | (Inl e, s) \<Rightarrow>
          (let s1 = (if cap s \<noteq> None then cap_release s else s);
               s2 = (if out s1 \<noteq> None then out_release s1 else s1)
           in (Inr (False, ''Error processing video: '' @ str e), s2)))"

subsection \<open>Concrete collaborators\<close>

text \<open>
  A frame of two rows and three columns, a stand-in blur that paints the block black,
  one detection, a clip that reports \<open>n\<close> frames and decodes \<open>k\<close>, and collaborators
  where only the file \<open>in.mp4\<close> exists, for running the model on concrete inputs.
\<close>

definition frame_2x3 :: image where
  "frame_2x3 = [[(1, 2, 3), (4, 5, 6), (7, 8, 9)], [(10, 11, 12), (13, 14, 15), (16, 17, 18)]]"

definition blur_black :: "image \<Rightarrow> int \<times> int \<Rightarrow> image" where
  "blur_black src ksize = map (map (\<lambda>p. (0, 0, 0))) src"

definition face_box :: detection where
  "face_box = \<lparr>score = 9 / 10,
     location_data = \<lparr>xmin = 1 / 3, ymin = 1 / 2, width = 1 / 3, height = 1 / 2\<rparr>\<rparr>"

definition clip :: "real \<Rightarrow> nat \<Rightarrow> video_capture" where
  "clip n k = \<lparr>isOpened = True, CAP_PROP_FPS = 30, CAP_PROP_FRAME_WIDTH = 3,
     CAP_PROP_FRAME_HEIGHT = 2, CAP_PROP_FRAME_COUNT = n,
     frames = replicate k (Inr frame_2x3)\<rparr>"

definition env_demo :: "exn + detection list option \<Rightarrow> video_capture \<Rightarrow> env" where
  "env_demo detected c = \<lparr>os_path_exists = (\<lambda>p. p = ''in.mp4''),
     os_remove = (\<lambda>p. None),
     cv2_imread = (\<lambda>p. Inr (Some frame_2x3)),
     cv2_imwrite = (\<lambda>p i. Inr True),
     face_detection_process = (\<lambda>t i. detected),
     cv2_GaussianBlur = blur_black,
     cv2_VideoCapture = (\<lambda>p. Inr c),
     cv2_VideoWriter = (\<lambda>p fps size. Inr True),
     out_write = (\<lambda>k i. None)\<rparr>"

text \<open>A frame of one row and fifty columns, and a detection at its left end.\<close>

definition frame_1x50 :: image where
  "frame_1x50 = [replicate 50 (1, 2, 3)]"

definition face_left :: detection where
  "face_left = \<lparr>score = 9 / 10,
     location_data = \<lparr>xmin = 0, ymin = 0, width = 1 / 10, height = 1\<rparr>\<rparr>"

section \<open>Properties\<close>

subsection \<open>Slices\<close>

lemma splice_length:
  assumes "s \<le> e" "e \<le> length xs" "length zs = e - s"
  shows "length (take s xs @ zs @ drop e xs) = length xs"
  using assms by simp

lemma splice_nth:
  assumes "s \<le> e" "e \<le> length xs" "length zs = e - s" "i < length xs"
  shows "(take s xs @ zs @ drop e xs) ! i =
           (if i < s then xs ! i else if i < e then zs ! (i - s) else xs ! i)"
  using assms by (auto simp add: nth_append min_def)

lemma slice_indices_le:
  assumes "slice_indices a b (int (length xs)) = (s, e)"
  shows "s \<le> e \<and> e \<le> length xs"
  using assms
  by (auto simp add: slice_indices_def Let_def max_def min_def nat_le_iff split: if_splits)

lemma slice_indices_exact:
  assumes "0 \<le> a" "a \<le> b" "b \<le> n"
  shows "slice_indices a b n = (nat a, nat b)"
  using assms by (auto simp add: slice_indices_def Let_def)

lemma length_getslice:
  assumes "slice_indices a b (int (length xs)) = (s, e)"
  shows "length (getslice a b xs) = e - s"
  using slice_indices_le [OF assms] by (auto simp add: getslice_def assms)

lemma setslice_length:
  assumes "length ys = length (getslice a b xs)"
  shows "length (setslice a b xs ys) = length xs"
proof -
  obtain s e where se: "slice_indices a b (int (length xs)) = (s, e)"
    by (cases "slice_indices a b (int (length xs))")
  from slice_indices_le [OF se] length_getslice [OF se] assms show ?thesis
    by (simp add: setslice_def se)
qed

lemma setslice_nth:
  assumes "length ys = length (getslice a b xs)"
    and "slice_indices a b (int (length xs)) = (s, e)" and "j < length xs"
  shows "setslice a b xs ys ! j = (if j < s then xs ! j else if j < e then ys ! (j - s) else xs ! j)"
proof -
  have "length ys = e - s" using assms(1) length_getslice [OF assms(2)] by simp
  with slice_indices_le [OF assms(2)] assms(3) show ?thesis
    unfolding setslice_def assms(2) by (simp add: splice_nth)
qed

text \<open>
  A block assignment that succeeds keeps the number of rows, leaves the rows outside the
  row slice as they are, and assigns inside each selected row the matching row of the
  source, which has the length of the column slice.
\<close>

lemma setitem2_rows:
  assumes ok: "setitem2 img (y0, y1) (x0, x1) src = Inr img'"
    and se: "slice_indices y0 y1 (int (length img)) = (s, e)"
  shows "length img' = length img"
    and "\<And>i. i < length img \<Longrightarrow> \<not> (s \<le> i \<and> i < e) \<Longrightarrow> img' ! i = img ! i"
    and "\<And>i. i < length img \<Longrightarrow> s \<le> i \<Longrightarrow> i < e \<Longrightarrow>
           img' ! i = setslice x0 x1 (img ! i) (src ! (i - s))
           \<and> length (src ! (i - s)) = length (getslice x0 x1 (img ! i))"
proof -
  let ?mid = "take (e - s) (drop s img)"
  let ?new = "map2 (setslice x0 x1) ?mid src"
  from ok have shape: "map length src = map length (getitem2 img (y0, y1) (x0, x1))"
    by (simp add: setitem2_def split: if_splits)
  from ok have img': "img' = take s img @ ?new @ drop e img"
    by (simp add: setitem2_def se split: if_splits)
  have le: "s \<le> e" "e \<le> length img" using slice_indices_le [OF se] by simp_all
  have mid: "getslice y0 y1 img = ?mid" by (simp add: getslice_def se)
  have len_mid: "length ?mid = e - s" using le by simp
  from shape have "length src = length (getitem2 img (y0, y1) (x0, x1))"
    by (rule map_eq_imp_length_eq)
  then have len_src: "length src = e - s" using len_mid by (simp add: getitem2_def mid)
  have len_new: "length ?new = e - s" using len_src len_mid by simp
  show "length img' = length img"
    unfolding img' using le len_new by (rule splice_length)
  show "img' ! i = img ! i" if "i < length img" "\<not> (s \<le> i \<and> i < e)" for i
    unfolding img' using splice_nth [OF le len_new that(1)] that(2) by auto
  show "img' ! i = setslice x0 x1 (img ! i) (src ! (i - s))
          \<and> length (src ! (i - s)) = length (getslice x0 x1 (img ! i))"
    if "i < length img" "s \<le> i" "i < e" for i
  proof -
    have k: "i - s < e - s" using that by simp
    have midk: "?mid ! (i - s) = img ! i" using that le by simp
    have "img' ! i = ?new ! (i - s)"
      unfolding img' using splice_nth [OF le len_new that(1)] that by simp
    also have "\<dots> = setslice x0 x1 (img ! i) (src ! (i - s))"
      using k len_src len_mid midk by simp
    finally have a: "img' ! i = setslice x0 x1 (img ! i) (src ! (i - s))" .
    have "map length src ! (i - s) = map length (getitem2 img (y0, y1) (x0, x1)) ! (i - s)"
      using shape by simp
    then have b: "length (src ! (i - s)) = length (getslice x0 x1 (img ! i))"
      using k len_src len_mid midk by (simp add: getitem2_def mid)
    from a b show ?thesis by simp
  qed
qed

lemma is_frame_row:
  assumes "is_frame img" "i < length img"
  shows "int (length (img ! i)) = shape1 img"
  using assms by (simp add: is_frame_def list_all_length)

lemma clamp_bbox_bounds:
  assumes "clamp_bbox img bbox = (x, y, w, h)"
  shows "0 \<le> x \<and> 0 \<le> y \<and> x + w \<le> shape1 img \<and> y + h \<le> shape0 img"
  using assms by (auto simp add: clamp_bbox_def Let_def split: prod.splits)

subsection \<open>The loops\<close>

text \<open>With a blur that keeps the shape of its source, the block assignment never raises.\<close>

lemma blur_face_region_returns:
  assumes "\<forall>src ksize. map length (cv2_GaussianBlur env src ksize) = map length src"
  shows "\<exists>img'. blur_face_region env img bbox blur_factor = Inr img'"
  using assms
  by (auto simp add: blur_face_region_def setitem2_def Let_def split: prod.splits)

lemma blur_detections_count:
  assumes "\<forall>src ksize. map length (cv2_GaussianBlur env src ksize) = map length src"
  shows "\<exists>img'. blur_detections env ds (img, n) = Inr (img', n + int (length ds))"
proof (induction ds arbitrary: img n)
  case Nil
  then show ?case by simp
next
  case (Cons d ds)
  obtain img1 where step:
    "blur_face_region env img (clamp_and_pad (location_data d) (shape1 img) (shape0 img) 20) 100
       = Inr img1"
    using blur_face_region_returns [OF assms] by blast
  from Cons.IH [of img1 "n + 1"] obtain img' where
    "blur_detections env ds (img1, n + 1) = Inr (img', n + 1 + int (length ds))" by blast
  with step show ?case by (simp add: Let_def)
qed

text \<open>The frame loop touches the trace only: the handles stay as they were.\<close>

lemma process_frames_handles:
  "cap (snd (process_frames env total_frames rs (fc, tf) s)) = cap s
   \<and> out (snd (process_frames env total_frames rs (fc, tf) s)) = out s"
proof (induction rs arbitrary: fc tf s)
  case Nil
  then show ?case by (simp add: emit_def)
next
  case (Cons r rs)
  show ?case
    by (simp add: Let_def emit_def Cons.IH split: sum.splits option.splits prod.splits)
qed

text \<open>
  A frame loop that ends without a fault has counted every frame it decoded and added
  up the face counts of the redactor.
\<close>

lemma process_frames_counts:
  assumes "process_frames env total_frames (map Inr fs) (fc, tf) s = (Inr (fc', tf'), s')"
    and "map (\<lambda>f. detect_and_blur_faces env f confidence_threshold_default) fs = map Inr results"
  shows "fc' = fc + int (length fs) \<and> tf' = tf + sum_list (map snd results)"
  using assms
proof (induction fs arbitrary: fc tf s results)
  case Nil
  then show ?case by simp
next
  case (Cons f fs)
  from Cons.prems(2) obtain r rest where res: "results = r # rest"
    and r: "detect_and_blur_faces env f confidence_threshold_default = Inr r"
    and rest: "map (\<lambda>f. detect_and_blur_faces env f confidence_threshold_default) fs = map Inr rest"
    by (cases results) auto
  obtain pf n where rn: "r = (pf, n)" by (cases r)
  from Cons.prems(1) r rn obtain s1 where
    "process_frames env total_frames (map Inr fs) (fc + 1, tf + n) s1 = (Inr (fc', tf'), s')"
    by (auto simp add: Let_def split: option.splits if_splits)
  from Cons.IH [OF this rest] show ?case
    by (simp add: res rn)
qed

lemma written_append: "written (es @ es') = written es @ written es'"
  by (induction es rule: written.induct) simp_all

text \<open>
  When the redactor returns on every frame, no write raises and the division of the
  progress report is never by zero (the reported count is not 0, or fewer than 30 frames
  are left to count), the frame loop ends without a fault.
\<close>

lemma process_frames_returns:
  assumes "map (\<lambda>f. detect_and_blur_faces env f confidence_threshold_default) fs = map Inr results"
    and "\<forall>k f. out_write env k f = None"
    and "total_frames \<noteq> 0 \<or> (0 \<le> fc \<and> fc + int (length fs) < 30)"
  shows "\<exists>s'. process_frames env total_frames (map Inr fs) (fc, tf) s
           = (Inr (fc + int (length fs), tf + sum_list (map snd results)), s')"
  using assms
proof (induction fs arbitrary: fc tf s results)
  case Nil
  then show ?case by simp
next
  case (Cons f fs)
  from Cons.prems(1) obtain r rest where res: "results = r # rest"
    and r: "detect_and_blur_faces env f confidence_threshold_default = Inr r"
    and rest: "map (\<lambda>f. detect_and_blur_faces env f confidence_threshold_default) fs = map Inr rest"
    by (cases results) auto
  obtain pf n where rn: "r = (pf, n)" by (cases r)
  from Cons.prems(3) have next_ok:
    "total_frames \<noteq> 0 \<or> (0 \<le> fc + 1 \<and> fc + 1 + int (length fs) < 30)" by auto
  from Cons.prems(3) have no_div: "total_frames = 0 \<Longrightarrow> (fc + 1) mod 30 \<noteq> 0" by auto
  from Cons.IH [OF rest Cons.prems(2) next_ok]
  have ih: "\<exists>s'. process_frames env total_frames (map Inr fs) (fc + 1, tf + n) s
           = (Inr (fc + 1 + int (length fs), tf + n + sum_list (map snd rest)), s')" for s
    by blast
  show ?case
  proof (cases "(fc + 1) mod 30 = 0")
    case True
    with no_div have tf0: "total_frames \<noteq> 0" by blast
    from ih [of "emit (PrintProgress (fc + 1) total_frames)
                   (emit (OutWrite pf) (emit CapRead s))"]
    show ?thesis using r rn res True tf0 Cons.prems(2) by (simp add: Let_def add.assoc)
  next
    case False
    from ih [of "emit (OutWrite pf) (emit CapRead s)"]
    show ?thesis using r rn res False Cons.prems(2) by (simp add: Let_def add.assoc)
  qed
qed

text \<open>A frame loop that ends without a fault has written the redacted frames in decode order.\<close>

lemma process_frames_written:
  assumes "process_frames env total_frames (map Inr fs) (fc, tf) s = (Inr q, s')"
    and "map (\<lambda>f. detect_and_blur_faces env f confidence_threshold_default) fs = map Inr results"
  shows "written (trace s') = written (trace s) @ map fst results"
  using assms
proof (induction fs arbitrary: fc tf s results)
  case Nil
  then show ?case by (auto simp add: emit_def written_append)
next
  case (Cons f fs)
  from Cons.prems(2) obtain r rest where res: "results = r # rest"
    and r: "detect_and_blur_faces env f confidence_threshold_default = Inr r"
    and rest: "map (\<lambda>f. detect_and_blur_faces env f confidence_threshold_default) fs = map Inr rest"
    by (cases results) auto
  obtain pf n where rn: "r = (pf, n)" by (cases r)
  from Cons.prems(1) r rn obtain s1 where
    run: "process_frames env total_frames (map Inr fs) (fc + 1, tf + n) s1 = (Inr q, s')"
    and s1: "written (trace s1) = written (trace s) @ [pf]"
    by (auto simp add: Let_def emit_def written_append split: option.splits if_splits)
  from Cons.IH [OF run rest] s1 show ?case
    by (simp add: res rn)
qed

subsection \<open>One blur pass\<close>

text \<open>The region of a detection is already within the frame: the operator's clamp keeps it.\<close>

lemma clamp_bbox_clamp_and_pad:
  "clamp_bbox img (clamp_and_pad b (shape1 img) (shape0 img) padding)
     = clamp_and_pad b (shape1 img) (shape0 img) padding"
  by (simp add: clamp_bbox_def clamp_and_pad_def Let_def)

lemma getslice_exact:
  assumes "0 \<le> a" "a \<le> b" "b \<le> int (length xs)"
  shows "getslice a b xs = take (nat (b - a)) (drop (nat a) xs)"
proof -
  have "nat b - nat a = nat (b - a)" using assms by simp
  then show ?thesis
    by (simp add: getslice_def slice_indices_exact [OF assms])
qed

lemma getitem2_exact:
  assumes frame: "is_frame img"
    and "0 \<le> x" "0 < w" "x + w \<le> shape1 img" "0 \<le> y" "0 < h" "y + h \<le> shape0 img"
  shows "getitem2 img (y, y + h) (x, x + w)
           = map (\<lambda>row. take (nat w) (drop (nat x) row)) (take (nat h) (drop (nat y) img))"
proof -
  have rows: "getslice y (y + h) img = take (nat h) (drop (nat y) img)"
    using getslice_exact [of y "y + h" img] assms by (simp add: shape0_def)
  have "getslice x (x + w) row = take (nat w) (drop (nat x) row)"
    if "row \<in> set (take (nat h) (drop (nat y) img))" for row
  proof -
    from that have "row \<in> set img" by (meson in_set_dropD in_set_takeD)
    with frame have "int (length row) = shape1 img" by (simp add: is_frame_def list_all_iff)
    with getslice_exact [of x "x + w" row] assms show ?thesis by simp
  qed
  then show ?thesis by (simp add: getitem2_def rows)
qed

lemma blur_face_region_shape:
  assumes res: "blur_face_region env img bbox blur_factor = Inr img'"
  shows "length img' = length img \<and> (\<forall>i < length img. length (img' ! i) = length (img ! i))"
proof -
  obtain x y w h where box: "clamp_bbox img bbox = (x, y, w, h)"
    by (cases "clamp_bbox img bbox")
  note b = clamp_bbox_bounds [OF box]
  show ?thesis
  proof (cases "w \<le> 0 \<or> h \<le> 0")
    case True
    with res box show ?thesis by (simp add: blur_face_region_def)
  next
    case False
    from False b have se: "slice_indices y (y + h) (int (length img)) = (nat y, nat (y + h))"
      by (intro slice_indices_exact) (simp_all add: shape0_def)
    from res box False obtain src where
      set: "setitem2 img (y, y + h) (x, x + w) src = Inr img'"
      by (auto simp add: blur_face_region_def Let_def)
    have "length (img' ! i) = length (img ! i)" if i: "i < length img" for i
    proof (cases "nat y \<le> i \<and> i < nat (y + h)")
      case True
      with setitem2_rows(3) [OF set se i] have
        "img' ! i = setslice x (x + w) (img ! i) (src ! (i - nat y))"
        "length (src ! (i - nat y)) = length (getslice x (x + w) (img ! i))" by simp_all
      then show ?thesis by (simp add: setslice_length)
    next
      case False
      with setitem2_rows(2) [OF set se i] show ?thesis by simp
    qed
    with setitem2_rows(1) [OF set se] show ?thesis by simp
  qed
qed

lemma same_shape_frame:
  assumes "is_frame img" "length img' = length img"
    and "\<forall>i < length img. length (img' ! i) = length (img ! i)"
  shows "is_frame img' \<and> shape0 img' = shape0 img \<and> shape1 img' = shape1 img"
proof -
  have s1: "shape1 img' = shape1 img"
  proof (cases img)
    case Nil
    with assms(2) show ?thesis by simp
  next
    case (Cons r rs)
    with assms(2) obtain r' rs' where c: "img' = r' # rs'" by (cases img') auto
    from assms(3) Cons have "length (img' ! 0) = length (img ! 0)" by auto
    with Cons c show ?thesis by (simp add: shape1_def)
  qed
  moreover have "is_frame img'"
    using assms s1 by (simp add: is_frame_def list_all_length)
  ultimately show ?thesis using assms(2) by (simp add: shape0_def)
qed

text \<open>
  On a frame, with a blur that keeps the shape of its source, the operator replaces the
  clamped rectangle by its blur and nothing else: it computes \<open>spec_blur_region\<close>.
\<close>

lemma blur_face_region_paste:
  assumes frame: "is_frame img"
    and shape: "\<forall>src ksize. map length (cv2_GaussianBlur env src ksize) = map length src"
    and box: "clamp_bbox img bbox = (x, y, w, h)"
    and pos: "0 < w" "0 < h"
  shows "blur_face_region env img bbox blur_factor
           = Inr (spec_blur_region env img (nat x, nat y, nat w, nat h)
                    (blur_factor * 2 + 1, blur_factor * 2 + 1))"
proof -
  note b = clamp_bbox_bounds [OF box]
  let ?k = "(blur_factor * 2 + 1, blur_factor * 2 + 1)"
  let ?block = "map (\<lambda>row. take (nat w) (drop (nat x) row)) (take (nat h) (drop (nat y) img))"
  let ?src = "cv2_GaussianBlur env ?block ?k"
  let ?p = "spec_blur_region env img (nat x, nat y, nat w, nat h) ?k"
  have get: "getitem2 img (y, y + h) (x, x + w) = ?block"
    using getitem2_exact [OF frame] b pos by simp
  from blur_face_region_returns [OF shape] obtain img' where
    res: "blur_face_region env img bbox blur_factor = Inr img'" by blast
  with box pos get have set: "setitem2 img (y, y + h) (x, x + w) ?src = Inr img'"
    by (simp add: blur_face_region_def Let_def)
  from b pos have se: "slice_indices y (y + h) (int (length img)) = (nat y, nat (y + h))"
    by (intro slice_indices_exact) (simp_all add: shape0_def)
  from blur_face_region_shape [OF res] have len: "length img' = length img"
    and rowlen: "\<And>i. i < length img \<Longrightarrow> length (img' ! i) = length (img ! i)" by simp_all
  have ny: "nat (y + h) = nat y + nat h" and nx: "nat (x + w) = nat x + nat w"
    using b pos by (simp_all add: nat_add_distrib)
  have "img' = ?p"
  proof (rule nth_equalityI)
    show "length img' = length ?p" by (simp add: len spec_blur_region_def Let_def)
  next
    fix i assume "i < length img'"
    then have i: "i < length img" by (simp add: len)
    have sx: "slice_indices x (x + w) (int (length (img ! i))) = (nat x, nat (x + w))"
      using b pos by (intro slice_indices_exact) (simp_all add: is_frame_row [OF frame i])
    show "img' ! i = ?p ! i"
    proof (rule nth_equalityI)
      show "length (img' ! i) = length (?p ! i)"
        using i by (simp add: rowlen spec_blur_region_def Let_def)
    next
      fix j assume "j < length (img' ! i)"
      then have j: "j < length (img ! i)" using i by (simp add: rowlen)
      have pij: "?p ! i ! j = (if nat y \<le> i \<and> i < nat y + nat h \<and> nat x \<le> j \<and> j < nat x + nat w
                              then ?src ! (i - nat y) ! (j - nat x) else img ! i ! j)"
        using i j by (simp add: spec_blur_region_def Let_def)
      show "img' ! i ! j = ?p ! i ! j"
      proof (cases "nat y \<le> i \<and> i < nat (y + h)")
        case True
        with setitem2_rows(3) [OF set se i] have row:
          "img' ! i = setslice x (x + w) (img ! i) (?src ! (i - nat y))"
          "length (?src ! (i - nat y)) = length (getslice x (x + w) (img ! i))" by simp_all
        from setslice_nth [OF row(2) sx j] True show ?thesis
          by (auto simp add: row(1) pij ny nx)
      next
        case False
        with setitem2_rows(2) [OF set se i] show ?thesis
          by (auto simp add: pij ny)
      qed
    qed
  qed
  with res show ?thesis by simp
qed

lemma blur_face_region_pass:
  assumes frame: "is_frame img"
    and shape: "\<forall>src ksize. map length (cv2_GaussianBlur env src ksize) = map length src"
  shows "blur_face_region env img (clamp_and_pad (location_data d) (shape1 img) (shape0 img) 20) 100
           = Inr (spec_blur_pass env d img)
         \<and> is_frame (spec_blur_pass env d img)"
proof -
  let ?r = "clamp_and_pad (location_data d) (shape1 img) (shape0 img) 20"
  obtain x y w h where r: "?r = (x, y, w, h)" by (cases ?r)
  have "clamp_bbox img ?r = ?r" by (rule clamp_bbox_clamp_and_pad)
  with r have box: "clamp_bbox img ?r = (x, y, w, h)" by simp
  have res: "blur_face_region env img ?r 100 = Inr (spec_blur_pass env d img)"
  proof (cases "w \<le> 0 \<or> h \<le> 0")
    case True
    with box r show ?thesis by (simp add: blur_face_region_def spec_blur_pass_def)
  next
    case False
    then have "0 < w" "0 < h" by simp_all
    from blur_face_region_paste [OF frame shape box this, of 100] r False
    show ?thesis by (simp add: spec_blur_pass_def)
  qed
  from blur_face_region_shape [OF res] same_shape_frame [OF frame]
  have "is_frame (spec_blur_pass env d img)" by blast
  with res show ?thesis by simp
qed

lemma blur_detections_fold:
  assumes shape: "\<forall>src ksize. map length (cv2_GaussianBlur env src ksize) = map length src"
    and frame: "is_frame img"
  shows "blur_detections env ds (img, n) = Inr (fold (spec_blur_pass env) ds img, n + int (length ds))"
  using frame
proof (induction ds arbitrary: img n)
  case Nil
  then show ?case by simp
next
  case (Cons d ds)
  from blur_face_region_pass [OF Cons.prems shape, of d]
  have step: "blur_face_region env img
                (clamp_and_pad (location_data d) (shape1 img) (shape0 img) 20) 100
              = Inr (spec_blur_pass env d img)"
    and fr: "is_frame (spec_blur_pass env d img)" by simp_all
  from Cons.IH [OF fr, of "n + 1"] step show ?case by (simp add: Let_def)
qed

subsection \<open>The outcome of the frame loop\<close>

text \<open>Whether the frame loop raises, and what it counts, does not depend on the state.\<close>

lemma process_frames_fst_state:
  "fst (process_frames env total_frames rs (fc, tf) s)
     = fst (process_frames env total_frames rs (fc, tf) s')"
proof (induction rs arbitrary: fc tf s s')
  case Nil
  then show ?case by simp
next
  case (Cons r rs)
  show ?case
    using Cons.IH
    by (auto simp add: Let_def split: sum.splits option.splits prod.splits)
qed

text \<open>
  A frame loop that ends without a fault had no fault to meet: every read gave a frame,
  the redactor returned on each, no write raised, and no progress report divided by zero.
\<close>

lemma process_frames_only_if:
  assumes "process_frames env total_frames rs (fc, tf) s = (Inr q, s')"
  shows "\<exists>fs results. rs = map Inr fs
           \<and> map (\<lambda>f. detect_and_blur_faces env f confidence_threshold_default) fs = map Inr results
           \<and> (\<forall>k < length fs. out_write env (nat (fc + int k)) (fst (results ! k)) = None)
           \<and> (total_frames = 0 \<longrightarrow> (\<forall>k < length fs. (fc + int k + 1) mod 30 \<noteq> 0))"
  using assms
proof (induction rs arbitrary: fc tf s)
  case Nil
  then show ?case by simp
next
  case (Cons r rs)
  from Cons.prems obtain f where r: "r = Inr f" by (cases r) (auto simp add: Let_def)
  from Cons.prems r obtain pf n where
    d: "detect_and_blur_faces env f confidence_threshold_default = Inr (pf, n)"
    by (cases "detect_and_blur_faces env f confidence_threshold_default")
       (auto simp add: Let_def)
  from Cons.prems r d have w: "out_write env (nat fc) pf = None"
    by (cases "out_write env (nat fc) pf") (auto simp add: Let_def)
  from Cons.prems r d w have z: "total_frames = 0 \<longrightarrow> (fc + 1) mod 30 \<noteq> 0"
    by (auto simp add: Let_def split: if_splits)
  from Cons.prems r d w obtain s1 where
    "process_frames env total_frames rs (fc + 1, tf + n) s1 = (Inr q, s')"
    by (auto simp add: Let_def split: if_splits)
  from Cons.IH [OF this] obtain fs results where ih:
    "rs = map Inr fs"
    "map (\<lambda>f. detect_and_blur_faces env f confidence_threshold_default) fs = map Inr results"
    "\<forall>k < length fs. out_write env (nat (fc + 1 + int k)) (fst (results ! k)) = None"
    "total_frames = 0 \<longrightarrow> (\<forall>k < length fs. (fc + 1 + int k + 1) mod 30 \<noteq> 0)"
    by blast
  have wr: "out_write env (nat (fc + int k)) (fst (((pf, n) # results) ! k)) = None"
    if "k < length (f # fs)" for k
  proof (cases k)
    case 0
    with w show ?thesis by simp
  next
    case (Suc j)
    with that ih(3) have "out_write env (nat (fc + 1 + int j)) (fst (results ! j)) = None" by simp
    with Suc show ?thesis by (simp add: add.commute add.left_commute)
  qed
  have dz: "(fc + int k + 1) mod 30 \<noteq> 0" if "k < length (f # fs)" "total_frames = 0" for k
  proof (cases k)
    case 0
    with z that show ?thesis by simp
  next
    case (Suc j)
    with that ih(4) have "(fc + 1 + int j + 1) mod 30 \<noteq> 0" by simp
    with Suc show ?thesis by (simp add: add.commute add.left_commute)
  qed
  show ?case
    apply (rule exI [of _ "f # fs"], rule exI [of _ "(pf, n) # results"])
    using r d ih(1,2) wr dz by auto
qed

lemma process_frames_only_if0:
  assumes "fst (process_frames env total_frames rs (0, 0) s) = Inr q"
  shows "\<exists>fs results. rs = map Inr fs
           \<and> map (\<lambda>f. detect_and_blur_faces env f confidence_threshold_default) fs = map Inr results
           \<and> (\<forall>k < length fs. out_write env k (fst (results ! k)) = None)
           \<and> (total_frames = 0 \<longrightarrow> length fs < 30)"
proof -
  from assms obtain s' where "process_frames env total_frames rs (0, 0) s = (Inr q, s')"
    by (cases "process_frames env total_frames rs (0, 0) s") simp
  from process_frames_only_if [OF this] obtain fs results where r1: "rs = map Inr fs"
    and r2: "map (\<lambda>f. detect_and_blur_faces env f confidence_threshold_default) fs = map Inr results"
    and r3: "\<forall>k < length fs. out_write env (nat (0 + int k)) (fst (results ! k)) = None"
    and r4: "total_frames = 0 \<longrightarrow> (\<forall>k < length fs. (0 + int k + 1) mod 30 \<noteq> 0)"
    by blast
  from r3 have w: "\<forall>k < length fs. out_write env k (fst (results ! k)) = None" by simp
  have len: "length fs < 30" if z: "total_frames = 0"
  proof (rule ccontr)
    assume "\<not> length fs < 30"
    then have k: "(29::nat) < length fs" by simp
    from r4 z have "\<forall>k < length fs. (0 + int k + 1) mod 30 \<noteq> 0" by simp
    then have "29 < length fs \<longrightarrow> (0 + int 29 + 1) mod 30 \<noteq> (0::int)" by (rule spec)
    with k show False by simp
  qed
  show ?thesis
    apply (rule exI [of _ fs], rule exI [of _ results])
    using r1 r2 w len by simp
qed

lemma blur_faces_in_video_loop:
  assumes "os_path_exists env input_path"
    and "cv2_VideoCapture env input_path = Inr c"
    and "isOpened c"
    and "cv2_VideoWriter env output_path (py_int (CAP_PROP_FPS c))
           (py_int (CAP_PROP_FRAME_WIDTH c), py_int (CAP_PROP_FRAME_HEIGHT c)) = Inr True"
  shows "fst (blur_faces_in_video env input_path output_path) =
           (case fst (process_frames env (py_int (CAP_PROP_FRAME_COUNT c)) (frames c) (0, 0) state0) of
              Inl e \<Rightarrow> Inr (False, ''Error processing video: '' @ str e)
            | Inr (frame_count, faces) \<Rightarrow>
                Inr (True, ''Successfully processed video. '' @ str_int faces
                       @ '' face instances detected and blurred across ''
                       @ str_int frame_count @ '' frames.''))"
proof -
  let ?s4 = "emit (PrintProcessing (py_int (CAP_PROP_FRAME_COUNT c)) (py_int (CAP_PROP_FPS c)))
               ((emit (VideoWriter output_path)
                  ((emit (VideoCapture input_path) state0)\<lparr>cap := Some Opened\<rparr>))\<lparr>out := Some Opened\<rparr>)"
  let ?loop = "process_frames env (py_int (CAP_PROP_FRAME_COUNT c)) (frames c) (0, 0)"
  obtain r s5 where loop: "?loop ?s4 = (r, s5)" by (cases "?loop ?s4")
  have "fst (?loop state0) = fst (?loop ?s4)" by (rule process_frames_fst_state)
  with loop have r: "fst (?loop state0) = r" by simp
  from assms loop show ?thesis
    unfolding r
    by (cases r)
      (auto simp add: blur_faces_in_video_def blur_faces_in_video_try_def Let_def
        split: option.splits)
qed

subsection \<open>The region of a detection\<close>

text \<open>
  C1: for a relative box whose four fields lie between 0 and 1 and a frame of positive
  width \<open>W\<close> and height \<open>H\<close>, the region that lines 81 to 92 of
  \<open>detect_and_blur_faces\<close> compute (scale and truncate, pad on every side, clamp) has
  \<open>0 \<le> x\<close>, \<open>0 \<le> y\<close>, \<open>x + width \<le> W\<close> and \<open>y + height \<le> H\<close>, whatever the
  padding.
\<close>

theorem clamp_and_pad_within_frame:
  assumes "0 \<le> xmin b" "xmin b \<le> 1" "0 \<le> ymin b" "ymin b \<le> 1"
    and "0 \<le> width b" "width b \<le> 1" "0 \<le> height b" "height b \<le> 1"
    and "0 < W" "0 < H"
  shows "case clamp_and_pad b W H padding of (x, y, w, h) \<Rightarrow>
           0 \<le> x \<and> 0 \<le> y \<and> x + w \<le> W \<and> y + h \<le> H"
  by (simp add: clamp_and_pad_def Let_def min_def max_def)

theorem clamp_and_pad_within_frame_witness:
  "clamp_and_pad \<lparr>xmin = 3 / 4, ymin = 1 / 2, width = 1 / 4, height = 1 / 2\<rparr> 640 480 20
     = (460, 220, 180, 260)
   \<and> (0::int) \<le> 460 \<and> (0::int) \<le> 220 \<and> (460::int) + 180 \<le> 640 \<and> (220::int) + 260 \<le> 480"
  using clamp_and_pad_within_frame
    [of "\<lparr>xmin = 3 / 4, ymin = 1 / 2, width = 1 / 4, height = 1 / 2\<rparr>" 640 480 20]
  by (simp add: clamp_and_pad_def py_int_def)

subsection \<open>The region blur operator\<close>

text \<open>
  C7: when the width or the height that \<open>blur_face_region\<close> is left with after its own
  clamping is 0 or negative, it returns the frame as it was, without raising.
\<close>

theorem blur_face_region_degenerate:
  assumes "clamp_bbox img bbox = (x, y, w, h)" and "w \<le> 0 \<or> h \<le> 0"
  shows "blur_face_region env img bbox blur_factor = Inr img"
  using assms by (simp add: blur_face_region_def)

theorem blur_face_region_degenerate_witness:
  "clamp_bbox frame_2x3 (5, 0, 2, 2) = (5, 0, - 2, 2)
   \<and> blur_face_region (env_demo (Inr None) (clip 0 0)) frame_2x3 (5, 0, 2, 2) 100 = Inr frame_2x3"
proof -
  have box: "clamp_bbox frame_2x3 (5, 0, 2, 2) = (5, 0, - 2, 2)"
    by (simp add: clamp_bbox_def frame_2x3_def shape0_def shape1_def)
  from blur_face_region_degenerate [OF box] box show ?thesis by simp
qed

text \<open>
  C10: for every box of integers, \<open>blur_face_region\<close> clamps the origin to at least 0
  and caps the extent so that \<open>x + w\<close> and \<open>y + h\<close> stay within the frame. When it goes on
  to slice, the two slices are exactly the rows \<open>y\<close> up to \<open>y + h\<close> and the columns
  \<open>x\<close> up to \<open>x + w\<close>, with no clipping and no counting from the end, so that every
  pixel it reads or writes is one of the frame. The frame it returns has the shape of the
  one it was given, and every pixel outside the clamped rectangle is unchanged.
\<close>

theorem blur_face_region_within_frame:
  assumes frame: "is_frame img"
    and box: "clamp_bbox img bbox = (x, y, w, h)"
  shows "0 \<le> x \<and> 0 \<le> y \<and> x + w \<le> shape1 img \<and> y + h \<le> shape0 img
       \<and> (0 < w \<and> 0 < h \<longrightarrow>
            slice_indices y (y + h) (shape0 img) = (nat y, nat (y + h))
          \<and> slice_indices x (x + w) (shape1 img) = (nat x, nat (x + w)))
       \<and> (\<forall>img'. blur_face_region env img bbox blur_factor = Inr img' \<longrightarrow>
            length img' = length img
          \<and> (\<forall>i < length img. length (img' ! i) = length (img ! i)
               \<and> (\<forall>j < length (img ! i).
                     \<not> (y \<le> int i \<and> int i < y + h \<and> x \<le> int j \<and> int j < x + w)
                     \<longrightarrow> img' ! i ! j = img ! i ! j)))"
proof (intro conjI allI impI)
  note b = clamp_bbox_bounds [OF box]
  show "0 \<le> x" "0 \<le> y" "x + w \<le> shape1 img" "y + h \<le> shape0 img" using b by simp_all
  show "slice_indices y (y + h) (shape0 img) = (nat y, nat (y + h))" if "0 < w \<and> 0 < h"
    using b that by (intro slice_indices_exact) simp_all
  show "slice_indices x (x + w) (shape1 img) = (nat x, nat (x + w))" if "0 < w \<and> 0 < h"
    using b that by (intro slice_indices_exact) simp_all
next
  fix img'
  assume res: "blur_face_region env img bbox blur_factor = Inr img'"
  note b = clamp_bbox_bounds [OF box]
  show "length img' = length img"
  proof (cases "w \<le> 0 \<or> h \<le> 0")
    case True
    with res box show ?thesis by (simp add: blur_face_region_def)
  next
    case False
    from False b have se: "slice_indices y (y + h) (int (length img)) = (nat y, nat (y + h))"
      by (intro slice_indices_exact) (simp_all add: shape0_def)
    from res box False obtain src where
      "setitem2 img (y, y + h) (x, x + w) src = Inr img'"
      by (auto simp add: blur_face_region_def Let_def)
    from setitem2_rows(1) [OF this se] show ?thesis .
  qed
next
  fix img' i
  assume res: "blur_face_region env img bbox blur_factor = Inr img'" and i: "i < length img"
  note b = clamp_bbox_bounds [OF box]
  show "length (img' ! i) = length (img ! i)"
  proof (cases "w \<le> 0 \<or> h \<le> 0")
    case True
    with res box show ?thesis by (simp add: blur_face_region_def)
  next
    case False
    from False b have se: "slice_indices y (y + h) (int (length img)) = (nat y, nat (y + h))"
      by (intro slice_indices_exact) (simp_all add: shape0_def)
    from res box False obtain src where
      set: "setitem2 img (y, y + h) (x, x + w) src = Inr img'"
      by (auto simp add: blur_face_region_def Let_def)
    show ?thesis
    proof (cases "nat y \<le> i \<and> i < nat (y + h)")
      case True
      with setitem2_rows(3) [OF set se i] have
        "img' ! i = setslice x (x + w) (img ! i) (src ! (i - nat y))"
        "length (src ! (i - nat y)) = length (getslice x (x + w) (img ! i))" by simp_all
      then show ?thesis by (simp add: setslice_length)
    next
      case False
      with setitem2_rows(2) [OF set se i] show ?thesis by simp
    qed
  qed
next
  fix img' i j
  assume res: "blur_face_region env img bbox blur_factor = Inr img'" and i: "i < length img"
    and j: "j < length (img ! i)"
    and outside: "\<not> (y \<le> int i \<and> int i < y + h \<and> x \<le> int j \<and> int j < x + w)"
  note b = clamp_bbox_bounds [OF box]
  show "img' ! i ! j = img ! i ! j"
  proof (cases "w \<le> 0 \<or> h \<le> 0")
    case True
    with res box show ?thesis by (simp add: blur_face_region_def)
  next
    case False
    from False b have se: "slice_indices y (y + h) (int (length img)) = (nat y, nat (y + h))"
      by (intro slice_indices_exact) (simp_all add: shape0_def)
    from False b have sx: "slice_indices x (x + w) (int (length (img ! i))) = (nat x, nat (x + w))"
      by (intro slice_indices_exact) (simp_all add: is_frame_row [OF frame i])
    from res box False obtain src where
      set: "setitem2 img (y, y + h) (x, x + w) src = Inr img'"
      by (auto simp add: blur_face_region_def Let_def)
    show ?thesis
    proof (cases "nat y \<le> i \<and> i < nat (y + h)")
      case True
      with setitem2_rows(3) [OF set se i] have row:
        "img' ! i = setslice x (x + w) (img ! i) (src ! (i - nat y))"
        "length (src ! (i - nat y)) = length (getslice x (x + w) (img ! i))" by simp_all
      from True b have "y \<le> int i \<and> int i < y + h" by auto
      with outside have "\<not> (x \<le> int j \<and> int j < x + w)" by simp
      with b have "j < nat x \<or> \<not> j < nat (x + w)" by auto
      with setslice_nth [OF row(2) sx j] show ?thesis by (auto simp add: row(1))
    next
      case False
      with setitem2_rows(2) [OF set se i] show ?thesis by simp
    qed
  qed
qed

theorem blur_face_region_within_frame_witness:
  "clamp_bbox frame_2x3 (- 1, 1, 2, 5) = (0, 1, 2, 1)
   \<and> (\<exists>img'. blur_face_region (env_demo (Inr None) (clip 0 0)) frame_2x3 (- 1, 1, 2, 5) 100
               = Inr img'
        \<and> length img' = 2 \<and> img' ! 0 ! 0 = (1, 2, 3) \<and> img' ! 1 ! 2 = (16, 17, 18))"
proof -
  let ?env = "env_demo (Inr None) (clip 0 0)"
  let ?r = "[[(1, 2, 3), (4, 5, 6), (7, 8, 9)], [(0, 0, 0), (0, 0, 0), (16, 17, 18)]] :: image"
  have fr: "is_frame frame_2x3"
    by (simp add: is_frame_def frame_2x3_def shape1_def)
  have box: "clamp_bbox frame_2x3 (- 1, 1, 2, 5) = (0, 1, 2, 1)"
    by (simp add: clamp_bbox_def frame_2x3_def shape0_def shape1_def)
  have res: "blur_face_region ?env frame_2x3 (- 1, 1, 2, 5) 100 = Inr ?r"
    by code_simp
  from blur_face_region_within_frame [OF fr box, of ?env 100] res
  have "length ?r = length frame_2x3
      \<and> (\<forall>i < length frame_2x3. length (?r ! i) = length (frame_2x3 ! i)
           \<and> (\<forall>j < length (frame_2x3 ! i).
                 \<not> (1 \<le> int i \<and> int i < 1 + 1 \<and> 0 \<le> int j \<and> int j < 0 + 2)
                 \<longrightarrow> ?r ! i ! j = frame_2x3 ! i ! j))"
    by blast
  then have "length ?r = 2 \<and> ?r ! 0 ! 0 = (1, 2, 3) \<and> ?r ! 1 ! 2 = (16, 17, 18)"
    by (simp add: frame_2x3_def)
  with box res show ?thesis by blast
qed

subsection \<open>The frame redactor\<close>

text \<open>
  C6: on a frame where the detector returns \<open>K\<close> detections, \<open>detect_and_blur_faces\<close>
  returns the face count \<open>K\<close> and the frame that \<open>K\<close> blur passes leave, one pass for
  each detection of the list, in the order of the list, each on the frame the pass before
  left: nothing is merged, dropped or reordered, and a detection that comes twice is
  blurred twice and counted twice. The blur is taken to return an array of the shape of
  its source, as \<open>cv2.GaussianBlur\<close> does.
\<close>

theorem detect_and_blur_faces_count:
  assumes "face_detection_process env t (cvtColor_BGR2RGB img) = Inr (Some detections)"
    and "\<forall>src ksize. map length (cv2_GaussianBlur env src ksize) = map length src"
    and "is_frame img"
  shows "detect_and_blur_faces env img t
           = Inr (fold (spec_blur_pass env) detections img, int (length detections))"
  using assms(1) blur_detections_fold [OF assms(2,3), of detections 0]
  by (auto simp add: detect_and_blur_faces_def)

theorem detect_and_blur_faces_count_witness:
  "detect_and_blur_faces (env_demo (Inr (Some [face_left, face_left])) (clip 0 0))
     frame_1x50 (37 / 100)
   = Inr ([replicate 45 (0, 0, 0) @ replicate 5 (1, 2, 3)], 2)"
proof -
  let ?env = "env_demo (Inr (Some [face_left, face_left])) (clip 0 0)"
  have a1: "face_detection_process ?env (37 / 100) (cvtColor_BGR2RGB frame_1x50)
              = Inr (Some [face_left, face_left])"
    by (simp add: env_demo_def)
  have a2: "\<forall>src ksize. map length (cv2_GaussianBlur ?env src ksize) = map length src"
    by (simp add: env_demo_def blur_black_def)
  have a3: "is_frame frame_1x50"
    by (simp add: is_frame_def frame_1x50_def shape1_def)
  have passes: "fold (spec_blur_pass ?env) [face_left, face_left] frame_1x50
                  = [replicate 45 (0, 0, 0) @ replicate 5 (1, 2, 3)]"
    by code_simp
  from detect_and_blur_faces_count [OF a1 a2 a3] passes show ?thesis by simp
qed

text \<open>
  C8: on a frame where the detector returns no detection (\<open>None\<close> or the empty list),
  \<open>detect_and_blur_faces\<close> returns the frame it was given, every pixel as it was, and the
  face count 0.
\<close>

theorem detect_and_blur_faces_no_detections:
  assumes "face_detection_process env t (cvtColor_BGR2RGB img) = Inr None
         \<or> face_detection_process env t (cvtColor_BGR2RGB img) = Inr (Some [])"
  shows "detect_and_blur_faces env img t = Inr (img, 0)"
  using assms by (auto simp add: detect_and_blur_faces_def)

theorem detect_and_blur_faces_no_detections_witness:
  "detect_and_blur_faces (env_demo (Inr None) (clip 0 0)) frame_2x3 (37 / 100) = Inr (frame_2x3, 0)
   \<and> detect_and_blur_faces (env_demo (Inr (Some [])) (clip 0 0)) frame_2x3 (37 / 100)
       = Inr (frame_2x3, 0)"
  using detect_and_blur_faces_no_detections [of "env_demo (Inr None) (clip 0 0)" "37 / 100" frame_2x3]
    detect_and_blur_faces_no_detections [of "env_demo (Inr (Some [])) (clip 0 0)" "37 / 100" frame_2x3]
  by (simp add: env_demo_def)

subsection \<open>The pipelines\<close>

text \<open>
  C9: when the input path does not exist, \<open>blur_faces_in_image\<close> and
  \<open>blur_faces_in_video\<close> both return \<open>(False, "Input file not found")\<close>, and the state
  they end in is the one they started from: no handle was created and the trace is empty,
  so that nothing was decoded and nothing was written.
\<close>

theorem pipelines_input_not_found:
  assumes "\<not> os_path_exists env input_path"
  shows "blur_faces_in_image env input_path output_path
           = (Inr (False, ''Input file not found''), state0)
       \<and> blur_faces_in_video env input_path output_path
           = (Inr (False, ''Input file not found''), state0)"
  using assms
  by (simp add: blur_faces_in_image_def blur_faces_in_image_try_def
      blur_faces_in_video_def blur_faces_in_video_try_def)

theorem pipelines_input_not_found_witness:
  "blur_faces_in_image (env_demo (Inr None) (clip 2 2)) ''missing.png'' ''out.png''
     = (Inr (False, ''Input file not found''), \<lparr>cap = None, out = None, trace = []\<rparr>)
   \<and> blur_faces_in_video (env_demo (Inr None) (clip 2 2)) ''missing.mp4'' ''out.mp4''
     = (Inr (False, ''Input file not found''), \<lparr>cap = None, out = None, trace = []\<rparr>)"
  using pipelines_input_not_found [of "env_demo (Inr None) (clip 2 2)" "''missing.png''" "''out.png''"]
    pipelines_input_not_found [of "env_demo (Inr None) (clip 2 2)" "''missing.mp4''" "''out.mp4''"]
  by (simp add: env_demo_def state0_def)

text \<open>
  C4: whatever the collaborators do, \<open>blur_faces_in_image\<close> and
  \<open>blur_faces_in_video\<close> return a pair of a flag and a message and no exception leaves
  them. Every way to fail gives \<open>False\<close> with its message: the missing input, the image
  that does not decode, the save that fails, the video that does not open, the encoder that
  is not created, and an exception raised by any call, which becomes the message that
  carries \<open>str(e)\<close>. The flag is \<open>True\<close> only where every step succeeded; for the video
  that means that every read gave a frame, the redactor returned on each, no write raised
  and the progress report did not divide by zero.
\<close>

theorem pipelines_return_results:
  "(\<exists>success message.
      fst (blur_faces_in_image env input_path output_path) = Inr (success, message))
   \<and> (\<exists>success message.
      fst (blur_faces_in_video env input_path output_path) = Inr (success, message))
   \<and> (\<not> os_path_exists env input_path \<longrightarrow>
       fst (blur_faces_in_image env input_path output_path) = Inr (False, ''Input file not found'')
     \<and> fst (blur_faces_in_video env input_path output_path) = Inr (False, ''Input file not found''))
   \<and> (os_path_exists env input_path \<longrightarrow>
        (\<forall>e. cv2_imread env input_path = Inl e \<longrightarrow>
           fst (blur_faces_in_image env input_path output_path)
             = Inr (False, ''Error processing image: '' @ str e))
      \<and> (cv2_imread env input_path = Inr None \<longrightarrow>
           fst (blur_faces_in_image env input_path output_path)
             = Inr (False, ''Could not read image file. Please check the file format.''))
      \<and> (\<forall>img. cv2_imread env input_path = Inr (Some img) \<longrightarrow>
           (\<forall>e. detect_and_blur_faces env img confidence_threshold_default = Inl e \<longrightarrow>
              fst (blur_faces_in_image env input_path output_path)
                = Inr (False, ''Error processing image: '' @ str e))
         \<and> (\<forall>processed faces.
              detect_and_blur_faces env img confidence_threshold_default = Inr (processed, faces) \<longrightarrow>
                (\<forall>e. cv2_imwrite env output_path processed = Inl e \<longrightarrow>
                   fst (blur_faces_in_image env input_path output_path)
                     = Inr (False, ''Error processing image: '' @ str e))
              \<and> (cv2_imwrite env output_path processed = Inr False \<longrightarrow>
                   fst (blur_faces_in_image env input_path output_path)
                     = Inr (False, ''Failed to save processed image''))
              \<and> (cv2_imwrite env output_path processed = Inr True \<longrightarrow>
                   fst (blur_faces_in_image env input_path output_path)
                     = Inr (True, ''Successfully processed image. '' @ str_int faces
                             @ '' face(s) detected and blurred.'')))))
   \<and> (os_path_exists env input_path \<longrightarrow>
        (\<forall>e. cv2_VideoCapture env input_path = Inl e \<longrightarrow>
           fst (blur_faces_in_video env input_path output_path)
             = Inr (False, ''Error processing video: '' @ str e))
      \<and> (\<forall>c. cv2_VideoCapture env input_path = Inr c \<longrightarrow>
           (\<not> isOpened c \<longrightarrow>
              fst (blur_faces_in_video env input_path output_path)
                = Inr (False, ''Could not open video file. Please check the file format.''))
         \<and> (isOpened c \<longrightarrow>
              (\<forall>e. cv2_VideoWriter env output_path (py_int (CAP_PROP_FPS c))
                      (py_int (CAP_PROP_FRAME_WIDTH c), py_int (CAP_PROP_FRAME_HEIGHT c)) = Inl e \<longrightarrow>
                 fst (blur_faces_in_video env input_path output_path)
                   = Inr (False, ''Error processing video: '' @ str e))
            \<and> (cv2_VideoWriter env output_path (py_int (CAP_PROP_FPS c))
                  (py_int (CAP_PROP_FRAME_WIDTH c), py_int (CAP_PROP_FRAME_HEIGHT c)) = Inr False \<longrightarrow>
                 fst (blur_faces_in_video env input_path output_path)
                   = Inr (False, ''Could not create output video file'')))))
   \<and> (\<forall>c. os_path_exists env input_path
           \<and> cv2_VideoCapture env input_path = Inr c \<and> isOpened c
           \<and> cv2_VideoWriter env output_path (py_int (CAP_PROP_FPS c))
                (py_int (CAP_PROP_FRAME_WIDTH c), py_int (CAP_PROP_FRAME_HEIGHT c)) = Inr True \<longrightarrow>
          (\<forall>e. fst (process_frames env (py_int (CAP_PROP_FRAME_COUNT c)) (frames c) (0, 0) state0)
                  = Inl e \<longrightarrow>
             fst (blur_faces_in_video env input_path output_path)
               = Inr (False, ''Error processing video: '' @ str e))
        \<and> (\<forall>frame_count faces.
             fst (process_frames env (py_int (CAP_PROP_FRAME_COUNT c)) (frames c) (0, 0) state0)
                  = Inr (frame_count, faces) \<longrightarrow>
               fst (blur_faces_in_video env input_path output_path)
                 = Inr (True, ''Successfully processed video. '' @ str_int faces
                         @ '' face instances detected and blurred across ''
                         @ str_int frame_count @ '' frames.'')
             \<and> (\<exists>fs results. frames c = map Inr fs
                  \<and> map (\<lambda>f. detect_and_blur_faces env f confidence_threshold_default) fs
                      = map Inr results
                  \<and> (\<forall>k < length fs. out_write env k (fst (results ! k)) = None)
                  \<and> (py_int (CAP_PROP_FRAME_COUNT c) = 0 \<longrightarrow> length fs < 30)))
        \<and> (\<not> (\<exists>fs results. frames c = map Inr fs
                  \<and> map (\<lambda>f. detect_and_blur_faces env f confidence_threshold_default) fs
                      = map Inr results
                  \<and> (\<forall>k < length fs. out_write env k (fst (results ! k)) = None)
                  \<and> (py_int (CAP_PROP_FRAME_COUNT c) = 0 \<longrightarrow> length fs < 30)) \<longrightarrow>
             (\<exists>e. fst (blur_faces_in_video env input_path output_path)
                    = Inr (False, ''Error processing video: '' @ str e))))"
  apply (intro conjI)
  subgoal by (auto simp add: blur_faces_in_image_def split: prod.splits sum.splits)
  subgoal by (auto simp add: blur_faces_in_video_def Let_def split: prod.splits sum.splits)
  subgoal
    by (simp add: blur_faces_in_image_def blur_faces_in_image_try_def
        blur_faces_in_video_def blur_faces_in_video_try_def)
  subgoal by (simp add: blur_faces_in_image_def blur_faces_in_image_try_def Let_def)
  subgoal
    by (simp add: blur_faces_in_video_def blur_faces_in_video_try_def Let_def
        state0_def emit_def cap_release_def)
  subgoal
  proof (intro allI impI, elim conjE)
    fix c
    assume a: "os_path_exists env input_path" "cv2_VideoCapture env input_path = Inr c"
      "isOpened c"
      "cv2_VideoWriter env output_path (py_int (CAP_PROP_FPS c))
         (py_int (CAP_PROP_FRAME_WIDTH c), py_int (CAP_PROP_FRAME_HEIGHT c)) = Inr True"
    note loop = blur_faces_in_video_loop [OF a]
    have only_if: "\<exists>fs results. frames c = map Inr fs
                  \<and> map (\<lambda>f. detect_and_blur_faces env f confidence_threshold_default) fs
                      = map Inr results
                  \<and> (\<forall>k < length fs. out_write env k (fst (results ! k)) = None)
                  \<and> (py_int (CAP_PROP_FRAME_COUNT c) = 0 \<longrightarrow> length fs < 30)"
      if "fst (process_frames env (py_int (CAP_PROP_FRAME_COUNT c)) (frames c) (0, 0) state0)
            = Inr q" for q
      using that by (rule process_frames_only_if0)
    show "(\<forall>e. fst (process_frames env (py_int (CAP_PROP_FRAME_COUNT c)) (frames c) (0, 0) state0)
                  = Inl e \<longrightarrow>
             fst (blur_faces_in_video env input_path output_path)
               = Inr (False, ''Error processing video: '' @ str e))
        \<and> (\<forall>frame_count faces.
             fst (process_frames env (py_int (CAP_PROP_FRAME_COUNT c)) (frames c) (0, 0) state0)
                  = Inr (frame_count, faces) \<longrightarrow>
               fst (blur_faces_in_video env input_path output_path)
                 = Inr (True, ''Successfully processed video. '' @ str_int faces
                         @ '' face instances detected and blurred across ''
                         @ str_int frame_count @ '' frames.'')
             \<and> (\<exists>fs results. frames c = map Inr fs
                  \<and> map (\<lambda>f. detect_and_blur_faces env f confidence_threshold_default) fs
                      = map Inr results
                  \<and> (\<forall>k < length fs. out_write env k (fst (results ! k)) = None)
                  \<and> (py_int (CAP_PROP_FRAME_COUNT c) = 0 \<longrightarrow> length fs < 30)))
        \<and> (\<not> (\<exists>fs results. frames c = map Inr fs
                  \<and> map (\<lambda>f. detect_and_blur_faces env f confidence_threshold_default) fs
                      = map Inr results
                  \<and> (\<forall>k < length fs. out_write env k (fst (results ! k)) = None)
                  \<and> (py_int (CAP_PROP_FRAME_COUNT c) = 0 \<longrightarrow> length fs < 30)) \<longrightarrow>
             (\<exists>e. fst (blur_faces_in_video env input_path output_path)
                    = Inr (False, ''Error processing video: '' @ str e)))"
    proof (intro conjI allI impI)
      fix e
      assume "fst (process_frames env (py_int (CAP_PROP_FRAME_COUNT c)) (frames c) (0, 0) state0)
                = Inl e"
      then show "fst (blur_faces_in_video env input_path output_path)
               = Inr (False, ''Error processing video: '' @ str e)"
        by (simp add: loop)
    next
      fix frame_count faces
      assume r: "fst (process_frames env (py_int (CAP_PROP_FRAME_COUNT c)) (frames c) (0, 0) state0)
                = Inr (frame_count, faces)"
      then show "fst (blur_faces_in_video env input_path output_path)
                 = Inr (True, ''Successfully processed video. '' @ str_int faces
                         @ '' face instances detected and blurred across ''
                         @ str_int frame_count @ '' frames.'')"
        by (simp add: loop)
      from only_if [OF r] show "\<exists>fs results. frames c = map Inr fs
                  \<and> map (\<lambda>f. detect_and_blur_faces env f confidence_threshold_default) fs
                      = map Inr results
                  \<and> (\<forall>k < length fs. out_write env k (fst (results ! k)) = None)
                  \<and> (py_int (CAP_PROP_FRAME_COUNT c) = 0 \<longrightarrow> length fs < 30)" .
    next
      assume fault: "\<not> (\<exists>fs results. frames c = map Inr fs
                  \<and> map (\<lambda>f. detect_and_blur_faces env f confidence_threshold_default) fs
                      = map Inr results
                  \<and> (\<forall>k < length fs. out_write env k (fst (results ! k)) = None)
                  \<and> (py_int (CAP_PROP_FRAME_COUNT c) = 0 \<longrightarrow> length fs < 30))"
      show "\<exists>e. fst (blur_faces_in_video env input_path output_path)
                    = Inr (False, ''Error processing video: '' @ str e)"
      proof (cases "fst (process_frames env (py_int (CAP_PROP_FRAME_COUNT c)) (frames c) (0, 0) state0)")
        case (Inl e)
        then have "fst (blur_faces_in_video env input_path output_path)
                     = Inr (False, ''Error processing video: '' @ str e)"
          by (simp add: loop)
        then show ?thesis by (rule exI)
      next
        case (Inr q)
        from only_if [OF this] fault show ?thesis by blast
      qed
    qed
  qed
  done

theorem pipelines_return_results_witness:
  "fst (blur_faces_in_image ((env_demo (Inr None) (clip 1 1))\<lparr>cv2_imread := \<lambda>p. Inr None\<rparr>)
         ''in.mp4'' ''out.png'')
     = Inr (False, ''Could not read image file. Please check the file format.'')
   \<and> fst (blur_faces_in_image ((env_demo (Inr None) (clip 1 1))\<lparr>cv2_imwrite := \<lambda>p i. Inr False\<rparr>)
         ''in.mp4'' ''out.png'')
     = Inr (False, ''Failed to save processed image'')
   \<and> fst (blur_faces_in_image (env_demo (Inl (Exception ''detector failed'')) (clip 1 1))
         ''in.mp4'' ''out.png'')
     = Inr (False, ''Error processing image: detector failed'')
   \<and> fst (blur_faces_in_video (env_demo (Inr None) ((clip 1 1)\<lparr>isOpened := False\<rparr>))
         ''in.mp4'' ''out.mp4'')
     = Inr (False, ''Could not open video file. Please check the file format.'')
   \<and> fst (blur_faces_in_video
           ((env_demo (Inr None) (clip 1 1))\<lparr>cv2_VideoWriter := \<lambda>p fps size. Inr False\<rparr>)
         ''in.mp4'' ''out.mp4'')
     = Inr (False, ''Could not create output video file'')
   \<and> fst (blur_faces_in_video (env_demo (Inl (Exception ''detector failed'')) (clip 1 1))
         ''in.mp4'' ''out.mp4'')
     = Inr (False, ''Error processing video: detector failed'')"
proof -
  let ?raise = "env_demo (Inl (Exception ''detector failed'')) (clip 1 1)"
  have c1: "fst (blur_faces_in_image ((env_demo (Inr None) (clip 1 1))\<lparr>cv2_imread := \<lambda>p. Inr None\<rparr>)
         ''in.mp4'' ''out.png'')
     = Inr (False, ''Could not read image file. Please check the file format.'')"
    using pipelines_return_results
      [of "(env_demo (Inr None) (clip 1 1))\<lparr>cv2_imread := \<lambda>p. Inr None\<rparr>" "''in.mp4''" "''out.png''"]
    by (simp add: env_demo_def)
  have d2: "detect_and_blur_faces ((env_demo (Inr None) (clip 1 1))\<lparr>cv2_imwrite := \<lambda>p i. Inr False\<rparr>)
              frame_2x3 confidence_threshold_default = Inr (frame_2x3, 0)"
    by code_simp
  have c2: "fst (blur_faces_in_image ((env_demo (Inr None) (clip 1 1))\<lparr>cv2_imwrite := \<lambda>p i. Inr False\<rparr>)
         ''in.mp4'' ''out.png'')
     = Inr (False, ''Failed to save processed image'')"
    using pipelines_return_results
      [of "(env_demo (Inr None) (clip 1 1))\<lparr>cv2_imwrite := \<lambda>p i. Inr False\<rparr>" "''in.mp4''" "''out.png''"]
      d2
    by (simp add: env_demo_def)
  have d3: "detect_and_blur_faces ?raise frame_2x3 confidence_threshold_default
              = Inl (Exception ''detector failed'')"
    by code_simp
  have c3: "fst (blur_faces_in_image ?raise ''in.mp4'' ''out.png'')
     = Inr (False, ''Error processing image: detector failed'')"
    using pipelines_return_results [of ?raise "''in.mp4''" "''out.png''"] d3
    by (simp add: env_demo_def)
  have c4: "fst (blur_faces_in_video (env_demo (Inr None) ((clip 1 1)\<lparr>isOpened := False\<rparr>))
         ''in.mp4'' ''out.mp4'')
     = Inr (False, ''Could not open video file. Please check the file format.'')"
    using pipelines_return_results
      [of "env_demo (Inr None) ((clip 1 1)\<lparr>isOpened := False\<rparr>)" "''in.mp4''" "''out.mp4''"]
    by (simp add: env_demo_def)
  have c5: "fst (blur_faces_in_video
           ((env_demo (Inr None) (clip 1 1))\<lparr>cv2_VideoWriter := \<lambda>p fps size. Inr False\<rparr>)
         ''in.mp4'' ''out.mp4'')
     = Inr (False, ''Could not create output video file'')"
    using pipelines_return_results
      [of "(env_demo (Inr None) (clip 1 1))\<lparr>cv2_VideoWriter := \<lambda>p fps size. Inr False\<rparr>"
          "''in.mp4''" "''out.mp4''"]
    by (simp add: env_demo_def clip_def)
  have d6: "fst (process_frames ?raise (py_int (CAP_PROP_FRAME_COUNT (clip 1 1)))
                   (frames (clip 1 1)) (0, 0) state0)
              = Inl (Exception ''detector failed'')"
    by code_simp
  have c6: "fst (blur_faces_in_video ?raise ''in.mp4'' ''out.mp4'')
     = Inr (False, ''Error processing video: detector failed'')"
    using pipelines_return_results [of ?raise "''in.mp4''" "''out.mp4''"] d6
    by (simp add: env_demo_def clip_def)
  from c1 c2 c3 c4 c5 c6 show ?thesis by (intro conjI)
qed

text \<open>
  C2: on every run of \<open>blur_faces_in_video\<close> that opens the decode stream, the decode
  stream is released when the function returns, the encode stream is never left open,
  and it is released whenever it was opened. This covers the normal end, the encoder that
  cannot be created and a fault raised in the frame loop.
\<close>

theorem blur_faces_in_video_releases_streams:
  assumes "os_path_exists env input_path"
    and "cv2_VideoCapture env input_path = Inr c"
    and "isOpened c"
  shows "cap (snd (blur_faces_in_video env input_path output_path)) = Some Released
       \<and> out (snd (blur_faces_in_video env input_path output_path)) \<noteq> Some Opened
       \<and> (cv2_VideoWriter env output_path (py_int (CAP_PROP_FPS c))
             (py_int (CAP_PROP_FRAME_WIDTH c), py_int (CAP_PROP_FRAME_HEIGHT c)) = Inr True
           \<longrightarrow> out (snd (blur_faces_in_video env input_path output_path)) = Some Released)"
proof (cases "cv2_VideoWriter env output_path (py_int (CAP_PROP_FPS c))
             (py_int (CAP_PROP_FRAME_WIDTH c), py_int (CAP_PROP_FRAME_HEIGHT c))")
  case (Inl e)
  with assms show ?thesis
    by (simp add: blur_faces_in_video_def blur_faces_in_video_try_def Let_def state0_def
        emit_def cap_release_def out_release_def)
next
  case (Inr opened)
  show ?thesis
  proof (cases opened)
    case False
    with Inr assms show ?thesis
      by (simp add: blur_faces_in_video_def blur_faces_in_video_try_def Let_def state0_def
          emit_def cap_release_def out_release_def)
  next
    case True
    let ?s4 = "emit (PrintProcessing (py_int (CAP_PROP_FRAME_COUNT c)) (py_int (CAP_PROP_FPS c)))
                 ((emit (VideoWriter output_path)
                    ((emit (VideoCapture input_path) state0)\<lparr>cap := Some Opened\<rparr>))\<lparr>out := Some Opened\<rparr>)"
    let ?loop = "process_frames env (py_int (CAP_PROP_FRAME_COUNT c)) (frames c) (0, 0) ?s4"
    have h: "cap (snd ?loop) = Some Opened" "out (snd ?loop) = Some Opened"
      using process_frames_handles [of env _ _ 0 0 ?s4] by (simp_all add: emit_def)
    obtain r s5 where loop: "?loop = (r, s5)" by (cases ?loop)
    with h have s5: "cap s5 = Some Opened" "out s5 = Some Opened" by simp_all
    from assms Inr True loop s5 show ?thesis
      by (cases r)
        (auto simp add: blur_faces_in_video_def blur_faces_in_video_try_def Let_def
          emit_def cap_release_def out_release_def split: option.splits)
  qed
qed

theorem blur_faces_in_video_releases_streams_witness:
  "fst (blur_faces_in_video (env_demo (Inr None) (clip 0 30)) ''in.mp4'' ''out.mp4'')
     = Inr (False, ''Error processing video: division by zero'')
   \<and> cap (snd (blur_faces_in_video (env_demo (Inr None) (clip 0 30)) ''in.mp4'' ''out.mp4''))
       = Some Released
   \<and> out (snd (blur_faces_in_video (env_demo (Inr None) (clip 0 30)) ''in.mp4'' ''out.mp4''))
       = Some Released"
proof -
  have fault: "fst (blur_faces_in_video (env_demo (Inr None) (clip 0 30)) ''in.mp4'' ''out.mp4'')
     = Inr (False, ''Error processing video: division by zero'')"
    by code_simp
  from blur_faces_in_video_releases_streams
    [of "env_demo (Inr None) (clip 0 30)" "''in.mp4''" "clip 0 30" "''out.mp4''"] fault
  show ?thesis by (simp add: env_demo_def clip_def)
qed

text \<open>
  C5: when \<open>blur_faces_in_video\<close> opens the input, creates the encoder and the body of
  its \<open>try\<close> ends without raising, it returns \<open>True\<close> and the message
  "Successfully processed video. N face instances detected and blurred across M frames."
  where \<open>M\<close> is the number of frames decoded and \<open>N\<close> the sum of the face counts that
  \<open>detect_and_blur_faces\<close> returned on them. The frame count that the container reports
  has no part in it.
\<close>

theorem blur_faces_in_video_success_message:
  assumes "os_path_exists env input_path"
    and "cv2_VideoCapture env input_path = Inr c"
    and "isOpened c"
    and "cv2_VideoWriter env output_path (py_int (CAP_PROP_FPS c))
           (py_int (CAP_PROP_FRAME_WIDTH c), py_int (CAP_PROP_FRAME_HEIGHT c)) = Inr True"
    and "frames c = map Inr fs"
    and "map (\<lambda>f. detect_and_blur_faces env f confidence_threshold_default) fs = map Inr results"
    and "fst (blur_faces_in_video_try env input_path output_path state0) = Inr r"
  shows "fst (blur_faces_in_video env input_path output_path) =
           Inr (True, ''Successfully processed video. '' @ str_int (sum_list (map snd results))
                  @ '' face instances detected and blurred across ''
                  @ str_int (int (length fs)) @ '' frames.'')"
proof -
  let ?s4 = "emit (PrintProcessing (py_int (CAP_PROP_FRAME_COUNT c)) (py_int (CAP_PROP_FPS c)))
               ((emit (VideoWriter output_path)
                  ((emit (VideoCapture input_path) state0)\<lparr>cap := Some Opened\<rparr>))\<lparr>out := Some Opened\<rparr>)"
  let ?loop = "process_frames env (py_int (CAP_PROP_FRAME_COUNT c)) (map Inr fs) (0, 0) ?s4"
  obtain q s5 where loop: "?loop = (q, s5)" by (cases ?loop)
  from assms(1-5,7) loop obtain fc tf where q: "q = Inr (fc, tf)"
    by (cases q) (auto simp add: blur_faces_in_video_try_def Let_def)
  from process_frames_counts [OF loop [unfolded q] assms(6)]
  have "fc = int (length fs)" "tf = sum_list (map snd results)" by simp_all
  with assms(1-5) loop q show ?thesis
    by (simp add: blur_faces_in_video_def blur_faces_in_video_try_def Let_def)
qed

theorem blur_faces_in_video_success_message_witness:
  "fst (blur_faces_in_video (env_demo (Inr (Some [face_box, face_box])) (clip 7 2))
         ''in.mp4'' ''out.mp4'')
     = Inr (True, ''Successfully processed video. 4 face instances detected and blurred across 2 frames.'')"
proof -
  let ?env = "env_demo (Inr (Some [face_box, face_box])) (clip 7 2)"
  let ?black = "[[(0, 0, 0), (0, 0, 0), (0, 0, 0)], [(0, 0, 0), (0, 0, 0), (0, 0, 0)]] :: image"
  have a1: "os_path_exists ?env ''in.mp4''" by (simp add: env_demo_def)
  have a2: "cv2_VideoCapture ?env ''in.mp4'' = Inr (clip 7 2)" by (simp add: env_demo_def)
  have a3: "isOpened (clip 7 2)" by (simp add: clip_def)
  have a4: "cv2_VideoWriter ?env ''out.mp4'' (py_int (CAP_PROP_FPS (clip 7 2)))
           (py_int (CAP_PROP_FRAME_WIDTH (clip 7 2)), py_int (CAP_PROP_FRAME_HEIGHT (clip 7 2)))
           = Inr True" by (simp add: env_demo_def)
  have a5: "frames (clip 7 2) = map Inr [frame_2x3, frame_2x3]" by code_simp
  have a6: "map (\<lambda>f. detect_and_blur_faces ?env f confidence_threshold_default)
              [frame_2x3, frame_2x3] = map Inr [(?black, 2), (?black, 2)]"
    by code_simp
  have a7: "fst (blur_faces_in_video_try ?env ''in.mp4'' ''out.mp4'' state0)
     = Inr (True, ''Successfully processed video. 4 face instances detected and blurred across 2 frames.'')"
    by code_simp
  have m: "str_int (sum_list (map snd [(?black, 2::int), (?black, 2)])) = ''4''"
     "str_int (int (length [frame_2x3, frame_2x3])) = ''2''"
    by code_simp+
  from blur_faces_in_video_success_message [OF a1 a2 a3 a4 a5 a6 a7] m
  show ?thesis by simp
qed

text \<open>
  C3: the progress report of every 30th frame divides by the frame count that the
  container reports. On a clip that reports 0 frames and decodes 30, the division raises
  at the thirtieth frame and the pipeline returns the failure
  "Error processing video: division by zero" instead of a success.
\<close>

theorem blur_faces_in_video_zero_total_frames:
  "fst (blur_faces_in_video (env_demo (Inr None) (clip 0 30)) ''in.mp4'' ''out.mp4'')
     = Inr (False, ''Error processing video: division by zero'')"
  by code_simp

section \<open>Further properties\<close>

text \<open>
  The extent of the region: with a box whose origin lies between 0 and 1 and whose size
  is not negative, and a padding that is not negative, the width and the height of the
  region of lines 81 to 92 are not negative. With the bounds above this is the invariant
  of a region.
\<close>

theorem clamp_and_pad_extent:
  assumes "0 \<le> xmin b" "xmin b \<le> 1" "0 \<le> ymin b" "ymin b \<le> 1"
    and "0 \<le> width b" "0 \<le> height b"
    and "0 < W" "0 < H" "0 \<le> padding"
  shows "case clamp_and_pad b W H padding of (x, y, w, h) \<Rightarrow> 0 \<le> w \<and> 0 \<le> h"
proof -
  have x: "\<lfloor>xmin b * of_int W\<rfloor> \<le> W"
  proof -
    have "xmin b * of_int W \<le> 1 * of_int W"
      using assms(2,7) by (intro mult_right_mono) simp_all
    then have "\<lfloor>xmin b * of_int W\<rfloor> \<le> \<lfloor>(of_int W :: real)\<rfloor>" by (intro floor_mono) simp
    then show ?thesis by simp
  qed
  have y: "\<lfloor>ymin b * of_int H\<rfloor> \<le> H"
  proof -
    have "ymin b * of_int H \<le> 1 * of_int H"
      using assms(4,8) by (intro mult_right_mono) simp_all
    then have "\<lfloor>ymin b * of_int H\<rfloor> \<le> \<lfloor>(of_int H :: real)\<rfloor>" by (intro floor_mono) simp
    then show ?thesis by simp
  qed
  have w: "0 \<le> \<lfloor>width b * of_int W\<rfloor>" using assms(5,7) by simp
  have h: "0 \<le> \<lfloor>height b * of_int H\<rfloor>" using assms(6,8) by simp
  have px: "0 \<le> xmin b * of_int W" using assms(1,7) by simp
  have py: "0 \<le> ymin b * of_int H" using assms(3,8) by simp
  have pw: "0 \<le> width b * of_int W" using assms(5,7) by simp
  have ph: "0 \<le> height b * of_int H" using assms(6,8) by simp
  from x y w h assms(7-9) show ?thesis
    by (simp add: clamp_and_pad_def Let_def py_int_def px py pw ph min_def max_def)
qed

theorem clamp_and_pad_extent_witness:
  "clamp_and_pad \<lparr>xmin = 1, ymin = 1, width = 1 / 4, height = 1 / 2\<rparr> 640 480 20
     = (620, 460, 20, 20)
   \<and> (0::int) \<le> 20"
  using clamp_and_pad_extent
    [of "\<lparr>xmin = 1, ymin = 1, width = 1 / 4, height = 1 / 2\<rparr>" 640 480 20]
  by (simp add: clamp_and_pad_def py_int_def)

text \<open>
  The video pipeline succeeds on explicit conditions: the input exists and opens, the
  encoder is created, every read up to the end of the stream gives a frame, the redactor
  returns on each, no write raises, and the reported frame count is not 0 or fewer than 30
  frames are decoded.
\<close>

theorem blur_faces_in_video_succeeds:
  assumes "os_path_exists env input_path"
    and "cv2_VideoCapture env input_path = Inr c"
    and "isOpened c"
    and "cv2_VideoWriter env output_path (py_int (CAP_PROP_FPS c))
           (py_int (CAP_PROP_FRAME_WIDTH c), py_int (CAP_PROP_FRAME_HEIGHT c)) = Inr True"
    and "frames c = map Inr fs"
    and "map (\<lambda>f. detect_and_blur_faces env f confidence_threshold_default) fs = map Inr results"
    and "\<forall>k f. out_write env k f = None"
    and "py_int (CAP_PROP_FRAME_COUNT c) \<noteq> 0 \<or> length fs < 30"
  shows "fst (blur_faces_in_video env input_path output_path) =
           Inr (True, ''Successfully processed video. '' @ str_int (sum_list (map snd results))
                  @ '' face instances detected and blurred across ''
                  @ str_int (int (length fs)) @ '' frames.'')"
proof -
  let ?s4 = "emit (PrintProcessing (py_int (CAP_PROP_FRAME_COUNT c)) (py_int (CAP_PROP_FPS c)))
               ((emit (VideoWriter output_path)
                  ((emit (VideoCapture input_path) state0)\<lparr>cap := Some Opened\<rparr>))\<lparr>out := Some Opened\<rparr>)"
  from assms(8) have "py_int (CAP_PROP_FRAME_COUNT c) \<noteq> 0
      \<or> ((0::int) \<le> 0 \<and> 0 + int (length fs) < 30)" by auto
  from process_frames_returns [OF assms(6,7) this, of 0 ?s4] obtain s5 where
    "process_frames env (py_int (CAP_PROP_FRAME_COUNT c)) (map Inr fs) (0, 0) ?s4
       = (Inr (int (length fs), sum_list (map snd results)), s5)" by auto
  with assms(1-5) show ?thesis
    by (simp add: blur_faces_in_video_def blur_faces_in_video_try_def Let_def)
qed

theorem blur_faces_in_video_succeeds_witness:
  "fst (blur_faces_in_video (env_demo (Inr (Some [face_box])) (clip 0 2)) ''in.mp4'' ''out.mp4'')
     = Inr (True, ''Successfully processed video. 2 face instances detected and blurred across 2 frames.'')"
proof -
  let ?env = "env_demo (Inr (Some [face_box])) (clip 0 2)"
  let ?black = "[[(0, 0, 0), (0, 0, 0), (0, 0, 0)], [(0, 0, 0), (0, 0, 0), (0, 0, 0)]] :: image"
  have a1: "os_path_exists ?env ''in.mp4''" by (simp add: env_demo_def)
  have a2: "cv2_VideoCapture ?env ''in.mp4'' = Inr (clip 0 2)" by (simp add: env_demo_def)
  have a3: "isOpened (clip 0 2)" by (simp add: clip_def)
  have a4: "cv2_VideoWriter ?env ''out.mp4'' (py_int (CAP_PROP_FPS (clip 0 2)))
           (py_int (CAP_PROP_FRAME_WIDTH (clip 0 2)), py_int (CAP_PROP_FRAME_HEIGHT (clip 0 2)))
           = Inr True" by (simp add: env_demo_def)
  have a5: "frames (clip 0 2) = map Inr [frame_2x3, frame_2x3]" by code_simp
  have a6: "map (\<lambda>f. detect_and_blur_faces ?env f confidence_threshold_default)
              [frame_2x3, frame_2x3] = map Inr [(?black, 1), (?black, 1)]"
    by code_simp
  have a7: "\<forall>k f. out_write ?env k f = None" by (simp add: env_demo_def)
  have a8: "py_int (CAP_PROP_FRAME_COUNT (clip 0 2)) \<noteq> 0 \<or> length [frame_2x3, frame_2x3] < 30"
    by simp
  have m: "str_int (sum_list (map snd [(?black, 1::int), (?black, 1)])) = ''2''"
     "str_int (int (length [frame_2x3, frame_2x3])) = ''2''"
    by code_simp+
  from blur_faces_in_video_succeeds [OF a1 a2 a3 a4 a5 a6 a7 a8] m
  show ?thesis by simp
qed

text \<open>
  On a run of the video pipeline whose \<open>try\<close> does not raise, the frames handed to the
  encoder are the redacted frames, one for each decoded frame, in decode order.
\<close>

theorem blur_faces_in_video_writes_in_order:
  assumes "os_path_exists env input_path"
    and "cv2_VideoCapture env input_path = Inr c"
    and "isOpened c"
    and "cv2_VideoWriter env output_path (py_int (CAP_PROP_FPS c))
           (py_int (CAP_PROP_FRAME_WIDTH c), py_int (CAP_PROP_FRAME_HEIGHT c)) = Inr True"
    and "frames c = map Inr fs"
    and "map (\<lambda>f. detect_and_blur_faces env f confidence_threshold_default) fs = map Inr results"
    and "fst (blur_faces_in_video_try env input_path output_path state0) = Inr r"
  shows "written (trace (snd (blur_faces_in_video env input_path output_path))) = map fst results"
proof -
  let ?s4 = "emit (PrintProcessing (py_int (CAP_PROP_FRAME_COUNT c)) (py_int (CAP_PROP_FPS c)))
               ((emit (VideoWriter output_path)
                  ((emit (VideoCapture input_path) state0)\<lparr>cap := Some Opened\<rparr>))\<lparr>out := Some Opened\<rparr>)"
  let ?loop = "process_frames env (py_int (CAP_PROP_FRAME_COUNT c)) (map Inr fs) (0, 0) ?s4"
  obtain q s5 where loop: "?loop = (q, s5)" by (cases ?loop)
  from assms(1-5,7) loop obtain p where q: "q = Inr p"
    by (cases q) (auto simp add: blur_faces_in_video_try_def Let_def)
  have "written (trace ?s4) = []" by (simp add: emit_def state0_def written_append)
  with process_frames_written [OF loop [unfolded q] assms(6)]
  have "written (trace s5) = map fst results" by simp
  with assms(1-5) loop q show ?thesis
    by (cases p)
      (auto simp add: blur_faces_in_video_def blur_faces_in_video_try_def Let_def emit_def
        cap_release_def out_release_def written_append split: option.splits)
qed

theorem blur_faces_in_video_writes_in_order_witness:
  "written (trace (snd (blur_faces_in_video (env_demo (Inr None) (clip 0 2)) ''in.mp4'' ''out.mp4'')))
     = [frame_2x3, frame_2x3]"
proof -
  let ?env = "env_demo (Inr None) (clip 0 2)"
  have a1: "os_path_exists ?env ''in.mp4''" by (simp add: env_demo_def)
  have a2: "cv2_VideoCapture ?env ''in.mp4'' = Inr (clip 0 2)" by (simp add: env_demo_def)
  have a3: "isOpened (clip 0 2)" by (simp add: clip_def)
  have a4: "cv2_VideoWriter ?env ''out.mp4'' (py_int (CAP_PROP_FPS (clip 0 2)))
           (py_int (CAP_PROP_FRAME_WIDTH (clip 0 2)), py_int (CAP_PROP_FRAME_HEIGHT (clip 0 2)))
           = Inr True" by (simp add: env_demo_def)
  have a5: "frames (clip 0 2) = map Inr [frame_2x3, frame_2x3]" by code_simp
  have a6: "map (\<lambda>f. detect_and_blur_faces ?env f confidence_threshold_default)
              [frame_2x3, frame_2x3] = map Inr [(frame_2x3, 0), (frame_2x3, 0)]"
    by code_simp
  have a7: "fst (blur_faces_in_video_try ?env ''in.mp4'' ''out.mp4'' state0)
     = Inr (True, ''Successfully processed video. 0 face instances detected and blurred across 2 frames.'')"
    by code_simp
  from blur_faces_in_video_writes_in_order [OF a1 a2 a3 a4 a5 a6 a7]
  show ?thesis by simp
qed

end
